theory Spec2Isabelle
  imports Complex_Main "HOL-Library.Word"
begin

section \<open>Go integers\<close>

text \<open>
  Go's \<^verbatim>\<open>int\<close> is modelled as \<^typ>\<open>int\<close>. A vertex count that the validator accepts is
  bounded by the length of an array held in memory when it is positive, and the sums formed
  from the counts stay within 64 bits unless a count is below \<open>-2\<^sup>6\<^sup>2\<close>; such counts are
  outside the model. Go's \<^verbatim>\<open>/\<close> and \<^verbatim>\<open>%\<close> truncate towards zero, unlike \<open>div\<close> and \<open>mod\<close>
  of HOL, and a zero divisor is a run-time panic that the callers below test before
  dividing.
\<close>

definition go_div :: "int \<Rightarrow> int \<Rightarrow> int" where
  "go_div a b = sgn a * sgn b * (\<bar>a\<bar> div \<bar>b\<bar>)"

definition go_mod :: "int \<Rightarrow> int \<Rightarrow> int" where
  "go_mod a b = sgn a * (\<bar>a\<bar> mod \<bar>b\<bar>)"

type_synonym uint16 = "16 word"

section \<open>float32\<close>

text \<open>
  A finite \<^verbatim>\<open>float32\<close> is the rational it denotes. Every arithmetic operation and every
  conversion from an integer rounds the exact result to 24 significant bits, ties to the even
  significand (IEEE 754 binary32, the default rounding mode, one rounding per operation, no
  fused multiply-add).
  Infinities, NaN, signed zero and subnormals are outside the model: the exponent is not
  bounded, so a magnitude outside \<open>[2\<^sup>-\<^sup>1\<^sup>2\<^sup>6, 2\<^sup>1\<^sup>2\<^sup>8)\<close> and a division by zero are
  not what the hardware computes.
\<close>

type_synonym float32 = rat

fun bitlen_nat :: "nat \<Rightarrow> nat" where
  "bitlen_nat n = (if n = 0 then 0 else Suc (bitlen_nat (n div 2)))"

declare bitlen_nat.simps [simp del]

definition pow2 :: "int \<Rightarrow> rat" where
  "pow2 e = (if 0 \<le> e then 2 ^ nat e else 1 / 2 ^ nat (- e))"

text \<open>\<open>binade a\<close> is the \<open>k\<close> with \<open>2\<^sup>k\<^sup>-\<^sup>1 \<le> a < 2\<^sup>k\<close>, for \<open>a > 0\<close>.\<close>

definition binade :: "rat \<Rightarrow> int" where
  "binade a =
     (if 1 \<le> a then int (bitlen_nat (nat \<lfloor>a\<rfloor>))
      else 1 - int (bitlen_nat (nat (\<lceil>1 / a\<rceil> - 1))))"

definition round_even :: "rat \<Rightarrow> int" where
  "round_even q =
     (let f = \<lfloor>q\<rfloor>; r = q - of_int f
      in if r < 1 / 2 then f else if 1 / 2 < r then f + 1
         else if even f then f else f + 1)"

definition f32 :: "rat \<Rightarrow> float32" where
  "f32 x =
     (if x = 0 then 0
      else let a = \<bar>x\<bar>; ulp = pow2 (binade a - 24)
           in sgn x * of_int (round_even (a / ulp)) * ulp)"

definition f32_of_int :: "int \<Rightarrow> float32" where
  "f32_of_int n = f32 (of_int n)"

definition f32_add :: "float32 \<Rightarrow> float32 \<Rightarrow> float32" where
  "f32_add a b = f32 (a + b)"

definition f32_sub :: "float32 \<Rightarrow> float32 \<Rightarrow> float32" where
  "f32_sub a b = f32 (a - b)"

definition f32_mul :: "float32 \<Rightarrow> float32 \<Rightarrow> float32" where
  "f32_mul a b = f32 (a * b)"

definition f32_div :: "float32 \<Rightarrow> float32 \<Rightarrow> float32" where
  "f32_div a b = f32 (a / b)"

section \<open>Geometry (geometry.go)\<close>

text \<open>
  \<^verbatim>\<open>PrimitiveType\<close> is declared outside the files at hand; it carries the \<^verbatim>\<open>gl\<close> drawing
  modes that \<^verbatim>\<open>AssertValidGeometry\<close> switches on, and \<open>OTHER_PRIMITIVE\<close> stands for every
  other value of the underlying enum. \<^verbatim>\<open>BufferLayout\<close> is declared outside as well; the code
  names \<^verbatim>\<open>InterleavedBuffer\<close> only.
\<close>

datatype PrimitiveType =
  POINTS | LINES | LINE_LOOP | LINE_STRIP | TRIANGLES | TRIANGLE_STRIP | TRIANGLE_FAN
  | OTHER_PRIMITIVE nat

datatype BufferLayout = InterleavedBuffer | SeparateBuffer

text \<open>
  \<^verbatim>\<open>indices\<close> is a slice that the code tests against \<^verbatim>\<open>nil\<close>: \<open>None\<close> is the nil slice,
  \<open>Some []\<close> an empty one that is not nil.
\<close>

record Geometry =
  vertexCount :: int
  vertices :: "float32 list"
  indices :: "uint16 list option"
  primitiveType :: PrimitiveType
  vertexAttributes :: "string list"
  bufferLayout :: BufferLayout

definition emptyGeometry :: Geometry where
  "emptyGeometry =
     \<lparr>vertexCount = 0, vertices = [], indices = None, primitiveType = POINTS,
      vertexAttributes = [], bufferLayout = InterleavedBuffer\<rparr>"

datatype error =
  SizeMismatch | MissingAttributes | AttributeSizeMismatch | IndexOutOfBounds
  | ObsoleteVertices | IndexCountMismatch | UnsupportedPrimitiveType
  | UnknownShader | ShaderAttributeMismatch
  | IncompatiblePrimitiveType | IncompatibleAttributes | NotIndexable
  | IncompatibleIndexing | IncompatibleBufferLayout
  | GlyphLookupMiss
  | RuntimePanic

text \<open>
  Modelled from the spec: the package \<^verbatim>\<open>assert\<close> is outside the files at hand. The spec
  (section 9) has the code signal invalid data by assertion calls that abort or report, and
  the code provides for a call that returns false (\<^verbatim>\<open>geometry.go\<close>, line 191;
  \<^verbatim>\<open>text.go\<close>, line 95). Both are modelled, and every function that asserts takes the
  behaviour as its first argument: with \<open>Aborting\<close> a failed \<^verbatim>\<open>assert.True\<close>,
  \<^verbatim>\<open>assert.Func\<close> or \<^verbatim>\<open>assert.Fail\<close> raises the error of its category and ends the
  call in which it stands; with \<open>Reporting\<close> it reports the error and returns false, and
  the code goes on with its next statement. \<open>raised a r\<close> is the error that ends the call
  when \<open>r\<close> is the first failed assertion.
\<close>

datatype assertions = Aborting | Reporting

definition raised :: "assertions \<Rightarrow> error option \<Rightarrow> error option" where
  "raised a r = (case a of Aborting \<Rightarrow> r | Reporting \<Rightarrow> None)"

text \<open>
  The shader program that \<^verbatim>\<open>engine.Shaders.resolve(sProgKey)\<close> finds. The registry and the
  table \<^verbatim>\<open>vaTypePropertyMapping\<close> are outside the files at hand, so the validator takes
  what they yield as its first argument: \<open>None\<close> for the empty key, \<open>Some None\<close> for a key
  with no loaded program, \<open>Some (Some p)\<close> for a program, whose \<open>attributeTypes\<close> pairs each
  attribute name with the component count of its type.
\<close>

record ShaderProgram =
  attributeTypes :: "(string \<times> int) list"

definition slice_len :: "'a list option \<Rightarrow> nat" where
  "slice_len s = (case s of None \<Rightarrow> 0 | Some xs \<Rightarrow> length xs)"

definition slice_elems :: "'a list option \<Rightarrow> 'a list" where
  "slice_elems s = (case s of None \<Rightarrow> [] | Some xs \<Rightarrow> xs)"

text \<open>The closure handed to \<^verbatim>\<open>assert.Func\<close>: one pass over the indices.\<close>

fun index_scan :: "int \<Rightarrow> uint16 list \<Rightarrow> int \<times> int \<times> bool \<Rightarrow> int \<times> int \<times> bool" where
  "index_scan vertexCount' [] acc = acc"
| "index_scan vertexCount' (i # is) (minIdx, maxIdx, okay) =
     (let idx = uint i
      in index_scan vertexCount' is
           (if idx < minIdx then idx else minIdx,
            if maxIdx < idx then idx else maxIdx,
            if vertexCount' \<le> idx then False else okay))"

definition effectiveIndexCount :: "int \<Rightarrow> uint16 list option \<Rightarrow> int" where
  "effectiveIndexCount vertexCount' indices' =
     (if slice_len indices' = 0 then vertexCount' else int (slice_len indices'))"

text \<open>The \<^verbatim>\<open>switch primitiveType\<close> of \<^verbatim>\<open>AssertValidGeometry\<close>.\<close>

fun primitive_switch :: "PrimitiveType \<Rightarrow> int \<Rightarrow> error option" where
  "primitive_switch POINTS n = None"
| "primitive_switch LINE_STRIP n = (if 1 \<le> n then None else Some IndexCountMismatch)"
| "primitive_switch LINE_LOOP n = None"
| "primitive_switch LINES n = (if go_mod n 2 = 0 then None else Some IndexCountMismatch)"
| "primitive_switch TRIANGLE_STRIP n = (if 2 \<le> n then None else Some IndexCountMismatch)"
| "primitive_switch TRIANGLE_FAN n = (if 2 \<le> n then None else Some IndexCountMismatch)"
| "primitive_switch TRIANGLES n = (if go_mod n 3 = 0 then None else Some IndexCountMismatch)"
| "primitive_switch (OTHER_PRIMITIVE k) n = Some UnsupportedPrimitiveType"

text \<open>The loop over \<^verbatim>\<open>vertexAttributes\<close> in the shader phase.\<close>

fun shader_attributes :: "(string \<times> int) list \<Rightarrow> string list \<Rightarrow> int \<Rightarrow> error + int" where
  "shader_attributes tys [] expectedVertexSize = Inr expectedVertexSize"
| "shader_attributes tys (attr # attrs) expectedVertexSize =
     (case map_of tys attr of
        None \<Rightarrow> Inl ShaderAttributeMismatch
      | Some components \<Rightarrow> shader_attributes tys attrs (expectedVertexSize + components))"

text \<open>
  The validator asserts and does nothing else: its result here is the first assertion that
  fails, \<open>None\<close> when every assertion holds. Whether that failure ends the call of the
  validator's caller is for the caller's \<open>raised\<close>.
\<close>

definition AssertValidGeometry ::
  "ShaderProgram option option \<Rightarrow> int \<Rightarrow> float32 list \<Rightarrow> uint16 list option \<Rightarrow>
   PrimitiveType \<Rightarrow> string list \<Rightarrow> error option" where
  "AssertValidGeometry sProg vertexCount' vertices' indices' primitiveType' vertexAttributes' =
     (let indexCount = int (slice_len indices');
          vertexSize = (if 0 < vertexCount' then go_div (int (length vertices')) vertexCount' else 0)
      in
      if 0 < vertexCount' \<and>
         f32_div (f32_of_int (int (length vertices'))) (f32_of_int vertexCount') \<noteq> f32_of_int vertexSize
      then Some SizeMismatch
      else if \<not> 0 < vertexCount' \<and> length vertices' \<noteq> 0 then Some SizeMismatch
      else if 0 < vertexCount' \<and> \<not> 0 < length vertexAttributes' then Some MissingAttributes
      else if 0 < vertexCount' \<and> vertexSize < int (length vertexAttributes')
      then Some AttributeSizeMismatch
      else
        (let (minIdx, maxIdx, okay) = index_scan vertexCount' (slice_elems indices') (vertexCount', - 1, True)
         in
         if 0 < indexCount \<and> 65535 < vertexCount' then Some IndexOutOfBounds
         else if 0 < indexCount \<and> \<not> okay then Some IndexOutOfBounds
         else if 0 < indexCount \<and> 0 < vertexCount' - 1 - maxIdx then Some ObsoleteVertices
         else if 0 < indexCount \<and> 0 < minIdx then Some ObsoleteVertices
         else if 0 < indexCount \<and> indexCount < vertexCount' then Some ObsoleteVertices
         else
           (case primitive_switch primitiveType' (effectiveIndexCount vertexCount' indices') of
              Some e \<Rightarrow> Some e
            | None \<Rightarrow>
                (case sProg of
                   None \<Rightarrow> None
                 | Some None \<Rightarrow> Some UnknownShader
                 | Some (Some p) \<Rightarrow>
                     (case shader_attributes (attributeTypes p) vertexAttributes' 0 of
                        Inl e \<Rightarrow> Some e
                      | Inr expectedVertexSize \<Rightarrow>
                          if 0 < vertexCount' \<and>
                             length vertexAttributes' < length (attributeTypes p)
                          then Some ShaderAttributeMismatch
                          else if 0 < vertexCount' \<and> vertexSize \<noteq> expectedVertexSize
                          then Some ShaderAttributeMismatch
                          else None)))))"

text \<open>
  A call on a \<^verbatim>\<open>*Geometry\<close> either returns, with the receiver as the call left it, or is
  ended by an aborting assertion or a run-time panic; \<open>Panic\<close> carries the receiver as it was
  at that moment. \<^verbatim>\<open>Set\<close> calls the validator and then assigns the six fields: the
  assignments are reached unless the validator's failure ends the call.
\<close>

datatype outcome = Ok Geometry | Panic error Geometry

definition Set ::
  "assertions \<Rightarrow> Geometry \<Rightarrow> int \<Rightarrow> float32 list \<Rightarrow> uint16 list option \<Rightarrow>
   PrimitiveType \<Rightarrow> string list \<Rightarrow> BufferLayout \<Rightarrow> outcome" where
  "Set a g vertexCount' vertices' indices' primitiveType' vertexAttributes' bufferLayout' =
     (case raised a (AssertValidGeometry None vertexCount' vertices' indices' primitiveType'
                       vertexAttributes') of
        Some e \<Rightarrow> Panic e g
      | None \<Rightarrow>
          Ok (g\<lparr>vertexCount := vertexCount', vertices := vertices', indices := indices',
                primitiveType := primitiveType', vertexAttributes := vertexAttributes',
                bufferLayout := bufferLayout'\<rparr>))"

definition NewGeometry ::
  "assertions \<Rightarrow> int \<Rightarrow> float32 list \<Rightarrow> uint16 list option \<Rightarrow> PrimitiveType \<Rightarrow>
   string list \<Rightarrow> BufferLayout \<Rightarrow> outcome" where
  "NewGeometry a vertexCount' vertices' indices' primitiveType' vertexAttributes' bufferLayout' =
     Set a emptyGeometry vertexCount' vertices' indices' primitiveType' vertexAttributes'
       bufferLayout'"

text \<open>\<^verbatim>\<open>append(a, b...)\<close> on slices that may be nil: nothing appended to nil stays nil.\<close>

definition append_slice :: "'a list option \<Rightarrow> 'a list option \<Rightarrow> 'a list option" where
  "append_slice a b =
     (case a of
        None \<Rightarrow> (if slice_len b = 0 then None else Some (slice_elems b))
      | Some xs \<Rightarrow> Some (xs @ slice_elems b))"

definition equalStringSlice :: "string list \<Rightarrow> string list \<Rightarrow> bool" where
  "equalStringSlice a b =
     (if length a \<noteq> length b then False else list_all (\<lambda>(x, y). x = y) (zip a b))"

text \<open>
  The assertions of \<^verbatim>\<open>Append\<close> on a geometry that is not empty, in the order of the code:
  the first one that fails, \<open>None\<close> when all hold.
\<close>

definition Append_checks ::
  "Geometry \<Rightarrow> int \<Rightarrow> float32 list \<Rightarrow> uint16 list option \<Rightarrow> PrimitiveType \<Rightarrow>
   string list \<Rightarrow> BufferLayout \<Rightarrow> error option" where
  "Append_checks g vertexCount' vertices' indices' primitiveType' vertexAttributes' bufferLayout' =
     (case AssertValidGeometry None vertexCount' vertices' indices' primitiveType' vertexAttributes' of
        Some e \<Rightarrow> Some e
      | None \<Rightarrow>
          if primitiveType g \<noteq> primitiveType' then Some IncompatiblePrimitiveType
          else if \<not> equalStringSlice (vertexAttributes g) vertexAttributes'
          then Some IncompatibleAttributes
          else if 65535 < vertexCount g + vertexCount' + 2 then Some NotIndexable
          else if (indices g \<noteq> None) \<noteq> (indices' \<noteq> None) then Some IncompatibleIndexing
          else if 1 < length vertexAttributes' \<and> bufferLayout g \<noteq> bufferLayout'
          then Some IncompatibleBufferLayout
          else if 1 < length vertexAttributes' \<and> bufferLayout' \<noteq> InterleavedBuffer
          then Some IncompatibleBufferLayout
          else if \<not> (primitiveType' = POINTS \<or> primitiveType' = LINES \<or>
                      primitiveType' = TRIANGLES \<or> primitiveType' = TRIANGLE_STRIP)
          then Some UnsupportedPrimitiveType
          else None)"

text \<open>
  The triangle-strip branch for \<^verbatim>\<open>indices == nil\<close>. The division and the two slice
  expressions can panic at run time; they come before the first assignment to \<^verbatim>\<open>g\<close>.
\<close>

definition duplicate_vertices :: "Geometry \<Rightarrow> int \<Rightarrow> float32 list \<Rightarrow> outcome" where
  "duplicate_vertices g vertexCount' vertices' =
     (if vertexCount' = 0 then Panic RuntimePanic g
      else
        let vertexSize = go_div (int (length vertices')) vertexCount'
        in if vertexSize < 0 \<or> int (length (vertices g)) < vertexSize then Panic RuntimePanic g
           else if int (length vertices') < vertexSize then Panic RuntimePanic g
           else
             let lastVertex = drop (length (vertices g) - nat vertexSize) (vertices g);
                 firstVertex = take (nat vertexSize) vertices';
                 g1 = g\<lparr>vertices := vertices g @ lastVertex\<rparr>;
                 g2 = g1\<lparr>vertices := vertices g1 @ firstVertex\<rparr>
             in if go_mod (vertexCount g2) 2 \<noteq> 0
                then Ok (g2\<lparr>vertices := vertices g2 @ firstVertex\<rparr>)
                else Ok g2)"

text \<open>The triangle-strip branch for indices that are not nil; \<^verbatim>\<open>indices[0]\<close> can panic.\<close>

definition duplicate_indices :: "Geometry \<Rightarrow> uint16 list \<Rightarrow> outcome" where
  "duplicate_indices g indices' =
     (case indices' of
        [] \<Rightarrow> Panic RuntimePanic g
      | i0 # rest \<Rightarrow>
          let lastIdx = (0 :: uint16);
              firstIdx = i0 + word_of_int (vertexCount g);
              g1 = g\<lparr>indices := append_slice (indices g) (Some [lastIdx, firstIdx])\<rparr>
          in if go_mod (vertexCount g1) 2 \<noteq> 0
             then Ok (g1\<lparr>indices := append_slice (indices g1) (Some [firstIdx])\<rparr>)
             else Ok g1)"

definition stitch :: "Geometry \<Rightarrow> int \<Rightarrow> float32 list \<Rightarrow> uint16 list option \<Rightarrow> outcome" where
  "stitch g vertexCount' vertices' indices' =
     (case (case indices' of
              None \<Rightarrow> duplicate_vertices g vertexCount' vertices'
            | Some ixs \<Rightarrow> duplicate_indices g ixs) of
        Panic e s \<Rightarrow> Panic e s
      | Ok g1 \<Rightarrow> Ok (g1\<lparr>vertexCount := vertexCount g1 + (2 + go_mod (vertexCount g1) 2)\<rparr>))"

text \<open>The loop that offsets the indices from position \<open>firstIdx\<close> on.\<close>

definition offset_indices :: "nat \<Rightarrow> uint16 \<Rightarrow> uint16 list \<Rightarrow> uint16 list" where
  "offset_indices firstIdx d xs = take firstIdx xs @ map (\<lambda>x. x + d) (drop firstIdx xs)"

definition merge_run :: "Geometry \<Rightarrow> int \<Rightarrow> float32 list \<Rightarrow> uint16 list option \<Rightarrow> Geometry" where
  "merge_run g vertexCount' vertices' indices' =
     (let firstIdx = slice_len (indices g);
          g1 = g\<lparr>vertices := vertices g @ vertices'\<rparr>;
          g2 = g1\<lparr>indices := append_slice (indices g1) indices'\<rparr>;
          g3 = g2\<lparr>indices :=
                    map_option (offset_indices firstIdx (word_of_int (vertexCount g2))) (indices g2)\<rparr>
      in g3\<lparr>vertexCount := vertexCount g3 + vertexCount'\<rparr>)"

text \<open>
  \<^verbatim>\<open>Append\<close>: the assertions, then the stitching and the merge, which are reached unless a
  failed assertion ends the call.
\<close>

definition Append ::
  "assertions \<Rightarrow> Geometry \<Rightarrow> int \<Rightarrow> float32 list \<Rightarrow> uint16 list option \<Rightarrow>
   PrimitiveType \<Rightarrow> string list \<Rightarrow> BufferLayout \<Rightarrow> outcome" where
  "Append a g vertexCount' vertices' indices' primitiveType' vertexAttributes' bufferLayout' =
     (if vertexCount g = 0
      then Set a g vertexCount' vertices' indices' primitiveType' vertexAttributes' bufferLayout'
      else
        case raised a (Append_checks g vertexCount' vertices' indices' primitiveType'
                         vertexAttributes' bufferLayout') of
          Some e \<Rightarrow> Panic e g
        | None \<Rightarrow>
            (case (if primitiveType' = TRIANGLE_STRIP
                   then stitch g vertexCount' vertices' indices' else Ok g) of
               Panic e s \<Rightarrow> Panic e s
             | Ok g1 \<Rightarrow> Ok (merge_run g1 vertexCount' vertices' indices')))"

definition AppendGeometry :: "assertions \<Rightarrow> Geometry \<Rightarrow> Geometry \<Rightarrow> outcome" where
  "AppendGeometry a g other =
     Append a g (vertexCount other) (vertices other) (indices other) (primitiveType other)
       (vertexAttributes other) (bufferLayout other)"

section \<open>Text (builtin/shapes/text.go)\<close>

text \<open>
  A \<^verbatim>\<open>rune\<close> is its code point. Of the font, the fields and methods that \<^verbatim>\<open>text.go\<close> reads:
  the line metrics and the glyph table that the loader fills, and what the methods
  \<^verbatim>\<open>AvgWidth\<close>, \<^verbatim>\<open>TexCoord\<close> and \<^verbatim>\<open>TextureKey\<close> return; the methods are outside the files at
  hand and their results are taken as given with the font. \<^verbatim>\<open>Char(r)\<close> is the lookup in the
  glyph table.
\<close>

type_synonym rune = int

type_synonym Vec2i = "int \<times> int"

type_synonym Vec2f = "float32 \<times> float32"

record Char =
  Width :: int
  Offset :: Vec2i
  Pos :: Vec2i
  Size :: Vec2i

record Font =
  Height :: int
  Ascender :: int
  Descender :: int
  Chars :: "rune \<Rightarrow> Char option"
  AvgWidth :: float32
  TexCoord :: "rune \<Rightarrow> Vec2f \<times> Vec2f"
  TextureKey :: string

record Rectf =
  Min_rect :: Vec2f
  Max_rect :: Vec2f

datatype Color = RGBA float32 float32 float32 float32

definition White :: Color where
  "White = RGBA 1 1 1 1"

text \<open>
  Modelled from the spec: \<^verbatim>\<open>nora.Mesh\<close> and \<^verbatim>\<open>nora.Material\<close> are outside the files at
  hand. The mesh owns a geometry and a material. \<^verbatim>\<open>SetVertexData\<close> pushes the vertex count,
  the vertex floats, the indices, the primitive type, the attribute names and the buffer
  layout into the owned geometry through \<^verbatim>\<open>Set\<close>, which validates them again (spec, section
  4.3); the shader registry is outside the files at hand as well, so the validation is that
  of \<^verbatim>\<open>Set\<close>, without the shader phase. The material names the shader, binds textures and
  holds the uniforms, of which the colour is one.
\<close>

record Material =
  shaderKey :: string
  textureBindings :: "string \<Rightarrow> string option"
  uniforms :: "string \<Rightarrow> Color option"

record Mesh =
  material :: Material
  vertexData :: Geometry

definition NewMaterial :: "string \<Rightarrow> Material" where
  "NewMaterial key = \<lparr>shaderKey = key, textureBindings = Map.empty, uniforms = Map.empty\<rparr>"

definition AddTextureBinding :: "Material \<Rightarrow> string \<Rightarrow> string \<Rightarrow> Material" where
  "AddTextureBinding mat name key = mat\<lparr>textureBindings := (textureBindings mat)(name \<mapsto> key)\<rparr>"

definition Uniform4fColor :: "Material \<Rightarrow> string \<Rightarrow> Color \<Rightarrow> Material" where
  "Uniform4fColor mat name c = mat\<lparr>uniforms := (uniforms mat)(name \<mapsto> c)\<rparr>"

definition NewMesh :: "Material \<Rightarrow> Mesh" where
  "NewMesh mat = \<lparr>material = mat, vertexData = emptyGeometry\<rparr>"

definition SetVertexData ::
  "assertions \<Rightarrow> Mesh \<Rightarrow> int \<Rightarrow> float32 list \<Rightarrow> uint16 list option \<Rightarrow> PrimitiveType \<Rightarrow>
   string list \<Rightarrow> BufferLayout \<Rightarrow> error + Mesh" where
  "SetVertexData a m vertexCount' vertices' indices' primitiveType' vertexAttributes'
     bufferLayout' =
     (case Set a (vertexData m) vertexCount' vertices' indices' primitiveType' vertexAttributes'
             bufferLayout' of
        Panic e g \<Rightarrow> Inl e
      | Ok g \<Rightarrow> Inr (m\<lparr>vertexData := g\<rparr>))"

text \<open>
  The embedded \<^verbatim>\<open>nora.Transform\<close> is left out: no function below reads or writes it.
  The field \<^verbatim>\<open>text\<close> is \<open>text_runes\<close> here.
\<close>

record Text =
  font :: Font
  tabWidth :: int
  tabWidthPt :: float32
  mesh :: Mesh
  text_runes :: "rune list"
  bounds :: Rectf
  color :: Color

definition FontScaling :: "Text \<Rightarrow> float32" where
  "FontScaling m = f32_div 1 (f32_of_int (Height (font m)))"

text \<open>
  The local variables of the loop in \<^verbatim>\<open>update\<close>; \<open>boundsMaxX\<close> is \<^verbatim>\<open>m.bounds.Max[0]\<close>, the
  two buffers are the slices \<^verbatim>\<open>vertices\<close> and \<^verbatim>\<open>indices\<close> at their allocated length.
\<close>

record layout =
  origin :: float32
  baseline :: float32
  boundsMaxX :: float32
  vtx :: uint16
  idx :: nat
  vbuf :: "float32 list"
  ibuf :: "uint16 list"

text \<open>
  \<^verbatim>\<open>copy(dst[off:], src)\<close> for \<open>off \<le> length dst\<close>: as many elements as fit are copied, the
  length of \<open>dst\<close> stays.
\<close>

definition copy_into :: "'a list \<Rightarrow> nat \<Rightarrow> 'a list \<Rightarrow> 'a list" where
  "copy_into dst off src = take off dst @ take (length dst - off) src @ drop (off + length src) dst"

text \<open>The sixteen floats of a glyph's quad: four vertices, each \<open>x, y, u, v\<close>.\<close>

definition quad :: "Font \<Rightarrow> float32 \<Rightarrow> float32 \<Rightarrow> float32 \<Rightarrow> rune \<Rightarrow> Char \<Rightarrow> float32 list" where
  "quad f scale origin' baseline' r c =
     (let xl = f32_add origin' (f32_mul (f32_of_int (fst (Offset c))) scale);
          xr = f32_add xl (f32_mul (f32_of_int (fst (Size c))) scale);
          yt = f32_add baseline' (f32_mul (f32_of_int (snd (Offset c))) scale);
          yb = f32_sub yt (f32_mul (f32_of_int (snd (Size c))) scale);
          (tl, br) = TexCoord f r
      in [xl, yb, fst tl, snd br,
          xr, yb, fst br, snd br,
          xr, yt, fst br, snd tl,
          xl, yt, fst tl, snd tl])"

text \<open>
  One iteration of the loop over the runes. The slice expressions \<^verbatim>\<open>vertices[vtx*4:]\<close> and
  \<^verbatim>\<open>indices[idx:]\<close> panic when the offset is beyond the buffer; \<^verbatim>\<open>vtx*4\<close> is a product of
  \<^verbatim>\<open>uint16\<close> and wraps. A glyph that the font does not have fails the assertion on the
  lookup: when that returns false, the loop continues with the next rune.
\<close>

definition layout_step ::
  "assertions \<Rightarrow> Font \<Rightarrow> float32 \<Rightarrow> float32 \<Rightarrow> rune \<Rightarrow> layout \<Rightarrow> error + layout" where
  "layout_step a f tabWidthPt' scale r s =
     (if r = 13 then Inr s
      else if r = 10
      then Inr (s\<lparr>boundsMaxX := (if boundsMaxX s < origin s then origin s else boundsMaxX s),
                  origin := 0,
                  baseline := f32_sub (baseline s) (f32_mul (f32_of_int (Height f)) scale)\<rparr>)
      else if r = 9
      then Inr (s\<lparr>origin := f32_add (origin s) (f32_mul tabWidthPt' scale)\<rparr>)
      else
        case Chars f r of
          None \<Rightarrow> (case raised a (Some GlyphLookupMiss) of Some e \<Rightarrow> Inl e | None \<Rightarrow> Inr s)
        | Some c \<Rightarrow>
            if length (vbuf s) < unat (vtx s * 4) then Inl RuntimePanic
            else if length (ibuf s) < idx s then Inl RuntimePanic
            else
              Inr (s\<lparr>vbuf := copy_into (vbuf s) (unat (vtx s * 4))
                              (quad f scale (origin s) (baseline s) r c),
                      ibuf := copy_into (ibuf s) (idx s)
                              [vtx s, vtx s + 1, vtx s + 2, vtx s + 2, vtx s + 3, vtx s],
                      origin := f32_add (origin s) (f32_mul (f32_of_int (Width c)) scale),
                      vtx := vtx s + 4,
                      idx := idx s + 6\<rparr>))"

fun layout_loop ::
  "assertions \<Rightarrow> Font \<Rightarrow> float32 \<Rightarrow> float32 \<Rightarrow> rune list \<Rightarrow> layout \<Rightarrow> error + layout" where
  "layout_loop a f tabWidthPt' scale [] s = Inr s"
| "layout_loop a f tabWidthPt' scale (r # rs) s =
     (case layout_step a f tabWidthPt' scale r s of
        Inl e \<Rightarrow> Inl e
      | Inr s' \<Rightarrow> layout_loop a f tabWidthPt' scale rs s')"

definition layout_start :: "nat \<Rightarrow> layout" where
  "layout_start n =
     \<lparr>origin = 0, baseline = 0, boundsMaxX = 0, vtx = 0, idx = 0,
      vbuf = replicate (n * 4 * 4) 0, ibuf = replicate (n * 6) 0\<rparr>"

text \<open>
  \<^verbatim>\<open>update\<close> returns the text component as the call left it, or the error that ended the
  call; what the component holds when a call is ended is not modelled.
\<close>

definition update :: "assertions \<Rightarrow> Text \<Rightarrow> error + Text" where
  "update a m =
     (let f = font m;
          scale = FontScaling m;
          ascent = f32_mul (f32_of_int (Ascender f)) scale
      in case layout_loop a f (tabWidthPt m) scale (text_runes m)
                (layout_start (length (text_runes m))) of
           Inl e \<Rightarrow> Inl e
         | Inr s \<Rightarrow>
             if length (vbuf s) < unat (vtx s * 4) \<or> length (ibuf s) < idx s
             then Inl RuntimePanic
             else
               case SetVertexData a (mesh m) (uint (vtx s))
                      (take (unat (vtx s * 4)) (vbuf s))
                      (Some (take (idx s) (ibuf s)))
                      TRIANGLES [''position'', ''texCoord''] InterleavedBuffer of
                 Inl e \<Rightarrow> Inl e
               | Inr mesh' \<Rightarrow>
                   Inr (m\<lparr>bounds :=
                             \<lparr>Min_rect = (0, f32_add (baseline s)
                                                (f32_mul (f32_of_int (Descender f)) scale)),
                              Max_rect = (if boundsMaxX s < origin s then origin s
                                          else boundsMaxX s, ascent)\<rparr>,
                           mesh := mesh'\<rparr>))"

definition SetColor :: "Text \<Rightarrow> Color \<Rightarrow> Text" where
  "SetColor m c =
     m\<lparr>color := c,
       mesh := (mesh m)\<lparr>material := Uniform4fColor (material (mesh m)) ''color'' c\<rparr>\<rparr>"

definition NewText :: "assertions \<Rightarrow> Font \<Rightarrow> rune list \<Rightarrow> error + Text" where
  "NewText a font' text' =
     (let mat = AddTextureBinding (NewMaterial ''COL_TEX_2D'') ''sampler'' (TextureKey font');
          txt = \<lparr>font = font', tabWidth = 4, tabWidthPt = f32_mul (f32_of_int 4) (AvgWidth font'),
                 mesh = NewMesh mat, text_runes = text',
                 bounds = \<lparr>Min_rect = (0, 0), Max_rect = (0, 0)\<rparr>, color = White\<rparr>
      in case update a txt of
           Inl e \<Rightarrow> Inl e
         | Inr txt' \<Rightarrow> Inr (SetColor txt' White))"

definition Text_Set :: "assertions \<Rightarrow> Text \<Rightarrow> rune list \<Rightarrow> error + Text" where
  "Text_Set a m text' = update a (m\<lparr>text_runes := text'\<rparr>)"

definition SetFont :: "assertions \<Rightarrow> Text \<Rightarrow> Font \<Rightarrow> error + Text" where
  "SetFont a m font' = update a (m\<lparr>font := font'\<rparr>)"

definition SetTabWidth :: "assertions \<Rightarrow> Text \<Rightarrow> int \<Rightarrow> error + Text" where
  "SetTabWidth a m tabWidth' =
     update a (m\<lparr>tabWidth := tabWidth',
                tabWidthPt := f32_mul (f32_of_int tabWidth') (AvgWidth (font m))\<rparr>)"

text \<open>
  The number of runes of a text for which the loop emits a quad: those that are no carriage
  return, newline or tab and have a glyph in the font.
\<close>

definition glyphs :: "Font \<Rightarrow> rune list \<Rightarrow> nat" where
  "glyphs f rs = length (filter (\<lambda>r. r \<noteq> 13 \<and> r \<noteq> 10 \<and> r \<noteq> 9 \<and> Chars f r \<noteq> None) rs)"

text \<open>A glyph and a font with line height 20 for the concrete instances below.\<close>

definition glyph10 :: Char where
  "glyph10 = \<lparr>Width = 10, Offset = (1, 15), Pos = (0, 0), Size = (8, 16)\<rparr>"

definition font20 :: "float32 \<Rightarrow> Font" where
  "font20 w =
     \<lparr>Height = 20, Ascender = 16, Descender = - 4,
      Chars = [65 \<mapsto> glyph10, 66 \<mapsto> glyph10, 67 \<mapsto> glyph10],
      AvgWidth = w, TexCoord = (\<lambda>r. ((0, 0), (1, 1))), TextureKey = ''font20''\<rparr>"

definition text20 :: Text where
  "text20 =
     \<lparr>font = font20 10, tabWidth = 4, tabWidthPt = 40,
      mesh = NewMesh (NewMaterial ''COL_TEX_2D''), text_runes = [],
      bounds = \<lparr>Min_rect = (0, 0), Max_rect = (0, 0)\<rparr>, color = White\<rparr>"


section \<open>Properties of the validator\<close>

lemma go_mod_zero_iff: "go_mod n k = 0 \<longleftrightarrow> k dvd n"
proof -
  have "go_mod n k = 0 \<longleftrightarrow> \<bar>n\<bar> mod \<bar>k\<bar> = 0"
    by (cases "n = 0") (auto simp: go_mod_def sgn_if)
  also have "\<dots> \<longleftrightarrow> \<bar>k\<bar> dvd \<bar>n\<bar>"
    by (simp add: dvd_eq_mod_eq_0)
  finally show ?thesis by simp
qed

lemma equalStringSlice_iff: "equalStringSlice a b \<longleftrightarrow> a = b"
proof -
  have "equalStringSlice a b \<longleftrightarrow> list_all2 (=) a b"
    by (auto simp: equalStringSlice_def list_all_iff list_all2_iff)
  then show ?thesis by (simp add: list.rel_eq)
qed

lemma primitive_switch_None_iff:
  "primitive_switch pt n = None \<longleftrightarrow>
     (case pt of
        POINTS \<Rightarrow> True
      | LINES \<Rightarrow> 2 dvd n
      | LINE_LOOP \<Rightarrow> True
      | LINE_STRIP \<Rightarrow> 1 \<le> n
      | TRIANGLES \<Rightarrow> 3 dvd n
      | TRIANGLE_STRIP \<Rightarrow> 2 \<le> n
      | TRIANGLE_FAN \<Rightarrow> 2 \<le> n
      | OTHER_PRIMITIVE k \<Rightarrow> False)"
  by (cases pt) (simp_all add: go_mod_zero_iff)

text \<open>
  \<open>POINTS\<close> passes the switch whatever the count, so validation of the same data as points
  is validation of everything but the primitive type.
\<close>

lemma AssertValidGeometry_split:
  "AssertValidGeometry None vc vs is pt attrs =
     (case AssertValidGeometry None vc vs is POINTS attrs of
        Some e \<Rightarrow> Some e
      | None \<Rightarrow> primitive_switch pt (effectiveIndexCount vc is))"
  by (auto simp: AssertValidGeometry_def Let_def split: if_splits prod.splits option.splits)

lemma AssertValidGeometry_primitive:
  "AssertValidGeometry sp vc vs is pt attrs = None \<Longrightarrow>
   primitive_switch pt (effectiveIndexCount vc is) = None"
  by (auto simp: AssertValidGeometry_def Let_def split: if_splits prod.splits option.splits)

lemma AssertValidGeometry_empty_data:
  "AssertValidGeometry sp vc vs is pt attrs = None \<Longrightarrow> \<not> 0 < vc \<Longrightarrow> vs = []"
  by (auto simp: AssertValidGeometry_def Let_def split: if_splits prod.splits option.splits)

text \<open>
  C5, as the code has it. The effective index count is the index count when that is not zero
  and the vertex count otherwise. Data that passes every other check is accepted exactly
  when: Points and LineLoop, always; LineStrip, count at least 1; Lines, count divisible by
  2; Triangles, count divisible by 3; TriangleStrip and TriangleFan, count at least 2. Any
  other primitive type is rejected as unsupported.
\<close>

theorem validation_primitive_rule:
  "effectiveIndexCount vc is = (if slice_len is = 0 then vc else int (slice_len is)) \<and>
   (AssertValidGeometry None vc vs is pt attrs = None \<longleftrightarrow>
      AssertValidGeometry None vc vs is POINTS attrs = None \<and>
      (case pt of
         POINTS \<Rightarrow> True
       | LINES \<Rightarrow> 2 dvd effectiveIndexCount vc is
       | LINE_LOOP \<Rightarrow> True
       | LINE_STRIP \<Rightarrow> 1 \<le> effectiveIndexCount vc is
       | TRIANGLES \<Rightarrow> 3 dvd effectiveIndexCount vc is
       | TRIANGLE_STRIP \<Rightarrow> 2 \<le> effectiveIndexCount vc is
       | TRIANGLE_FAN \<Rightarrow> 2 \<le> effectiveIndexCount vc is
       | OTHER_PRIMITIVE k \<Rightarrow> False)) \<and>
   (AssertValidGeometry None vc vs is POINTS attrs = None \<longrightarrow>
      AssertValidGeometry None vc vs is (OTHER_PRIMITIVE k') attrs =
        Some UnsupportedPrimitiveType)"
proof -
  have a: "effectiveIndexCount vc is = (if slice_len is = 0 then vc else int (slice_len is))"
    by (simp add: effectiveIndexCount_def)
  have b: "AssertValidGeometry None vc vs is pt attrs = None \<longleftrightarrow>
      AssertValidGeometry None vc vs is POINTS attrs = None \<and>
      primitive_switch pt (effectiveIndexCount vc is) = None"
    by (subst AssertValidGeometry_split) (simp split: option.splits)
  have c: "AssertValidGeometry None vc vs is POINTS attrs = None \<longrightarrow>
      AssertValidGeometry None vc vs is (OTHER_PRIMITIVE k') attrs =
        Some UnsupportedPrimitiveType"
    by (subst (2) AssertValidGeometry_split) simp
  show ?thesis
    using a b c by (simp only: primitive_switch_None_iff)
qed

theorem validation_primitive_rule_witness:
  "AssertValidGeometry None 4 [0, 0, 0, 0] None POINTS [''position''] = None \<and>
   AssertValidGeometry None 4 [0, 0, 0, 0] None LINES [''position''] = None \<and>
   AssertValidGeometry None 4 [0, 0, 0, 0] None TRIANGLES [''position''] \<noteq> None \<and>
   AssertValidGeometry None 4 [0, 0, 0, 0] None (OTHER_PRIMITIVE 7) [''position''] =
     Some UnsupportedPrimitiveType"
proof -
  have p: "AssertValidGeometry None 4 [0, 0, 0, 0] None POINTS [''position''] = None"
    by code_simp
  have e: "effectiveIndexCount 4 None = 4"
    by code_simp
  show ?thesis
    using p e
      validation_primitive_rule [of 4 None "[0, 0, 0, 0]" LINES "[''position'']" 7]
      validation_primitive_rule [of 4 None "[0, 0, 0, 0]" TRIANGLES "[''position'']" 7]
    by simp
qed

text \<open>
  C5 as the claim words it fails for LineStrip, which the code accepts from one index on, and
  for LineLoop, a primitive type outside the claim's list that the code accepts: a single
  vertex is valid as either.
\<close>

theorem line_strip_single_vertex_accepted:
  "effectiveIndexCount 1 None = 1 \<and>
   AssertValidGeometry None 1 [0] None LINE_STRIP [''position''] = None \<and>
   AssertValidGeometry None 1 [0] None LINE_LOOP [''position''] = None"
  by code_simp

section \<open>Properties of Set and Append\<close>

lemma raised_None [simp]: "raised a None = None"
  by (cases a) (simp_all add: raised_def)

lemma raised_Aborting [simp]: "raised Aborting r = r"
  by (simp add: raised_def)

lemma raised_Reporting [simp]: "raised Reporting r = None"
  by (simp add: raised_def)









text \<open>
  C1 at a concrete join, for either behaviour of the assertions. The existing run ends with
  index 2; the code appends 0 for the first synthetic index (the read of the last index is
  commented out in the source), then the shifted first incoming index, once more as the
  existing vertex count 3 is odd.
\<close>

theorem indexed_strip_join_first_index:
  "Append a \<lparr>vertexCount = 3, vertices = [10, 11, 12], indices = Some [0, 1, 2],
              primitiveType = TRIANGLE_STRIP, vertexAttributes = [''position''],
              bufferLayout = InterleavedBuffer\<rparr>
     2 [20, 21] (Some [0, 1]) TRIANGLE_STRIP [''position''] InterleavedBuffer =
   Ok \<lparr>vertexCount = 8, vertices = [10, 11, 12, 20, 21],
       indices = Some [0, 1, 2, 0, 3, 3, 6, 7],
       primitiveType = TRIANGLE_STRIP, vertexAttributes = [''position''],
       bufferLayout = InterleavedBuffer\<rparr>"
proof (cases a)
  case Aborting
  show ?thesis unfolding Aborting by code_simp
next
  case Reporting
  show ?thesis unfolding Reporting by code_simp
qed

text \<open>
  C2 at a concrete append, for either behaviour of the assertions. A geometry that \<open>Set\<close>
  accepted, with an indexed triangle-strip run appended: the call returns, the vertex count
  has grown by the two stitching vertices that only the non-indexed branch adds, 4 floats are
  no whole number of 6 vertices, and the validator rejects the geometry the call left.
\<close>

theorem indexed_strip_append_breaks_invariant:
  "Set a emptyGeometry 2 [10, 11] (Some [0, 1]) TRIANGLE_STRIP [''position''] InterleavedBuffer =
     Ok \<lparr>vertexCount = 2, vertices = [10, 11], indices = Some [0, 1],
         primitiveType = TRIANGLE_STRIP, vertexAttributes = [''position''],
         bufferLayout = InterleavedBuffer\<rparr> \<and>
   AssertValidGeometry None 2 [10, 11] (Some [0, 1]) TRIANGLE_STRIP [''position''] = None \<and>
   Append a \<lparr>vertexCount = 2, vertices = [10, 11], indices = Some [0, 1],
              primitiveType = TRIANGLE_STRIP, vertexAttributes = [''position''],
              bufferLayout = InterleavedBuffer\<rparr>
     2 [20, 21] (Some [0, 1]) TRIANGLE_STRIP [''position''] InterleavedBuffer =
     Ok \<lparr>vertexCount = 6, vertices = [10, 11, 20, 21], indices = Some [0, 1, 0, 2, 4, 5],
         primitiveType = TRIANGLE_STRIP, vertexAttributes = [''position''],
         bufferLayout = InterleavedBuffer\<rparr> \<and>
   \<not> (6 :: int) dvd int (length [10, 11, 20, 21 :: float32]) \<and>
   AssertValidGeometry None 6 [10, 11, 20, 21] (Some [0, 1, 0, 2, 4, 5]) TRIANGLE_STRIP
     [''position''] = Some SizeMismatch"
proof (cases a)
  case Aborting
  show ?thesis unfolding Aborting by code_simp
next
  case Reporting
  show ?thesis unfolding Reporting by code_simp
qed

lemma go_div_nonneg: "0 \<le> a \<Longrightarrow> 0 < b \<Longrightarrow> go_div a b = a div b"
  by (cases "a = 0") (simp_all add: go_div_def)

lemma go_mod_nonneg: "0 \<le> a \<Longrightarrow> 0 < b \<Longrightarrow> go_mod a b = a mod b"
  by (cases "a = 0") (simp_all add: go_mod_def)

lemma Append_checks_compatible:
  assumes "AssertValidGeometry None vc vs is pt attrs = None"
    and "primitiveType g = pt" and "vertexAttributes g = attrs"
    and "vertexCount g + vc + 2 \<le> 65535"
    and "(indices g = None) = (is = None)"
    and "1 < length attrs \<longrightarrow> bufferLayout g = bl \<and> bl = InterleavedBuffer"
    and "pt = POINTS \<or> pt = LINES \<or> pt = TRIANGLES \<or> pt = TRIANGLE_STRIP"
  shows "Append_checks g vc vs is pt attrs bl = None"
  using assms by (auto simp: Append_checks_def equalStringSlice_iff)

text \<open>
  C4, for either behaviour of the assertions. A non-indexed triangle-strip run of \<open>N2\<close>
  vertices that passes validation, appended to a non-empty non-indexed triangle-strip
  geometry of \<open>N1\<close> vertices with the same attributes and the same \<open>sz\<close> floats per vertex,
  within the 16-bit bound of \<open>Append\<close> and in the interleaved layout when there are several
  attributes: the call returns, the vertex count
  is \<open>N1 + N2 + 2\<close> for even \<open>N1\<close> and \<open>N1 + N2 + 3\<close> for odd \<open>N1\<close>, and the vertex data is the
  existing data, the last existing vertex, the first incoming vertex (twice for odd \<open>N1\<close>),
  then the incoming data as it is. No other field changes.
\<close>

theorem Append_strip_nonindexed:
  assumes nonempty: "0 < N1"
    and g: "vertexCount g = N1" "indices g = None" "primitiveType g = TRIANGLE_STRIP"
      "vertexAttributes g = attrs" "length (vertices g) = nat N1 * sz"
    and run: "AssertValidGeometry None N2 vs None TRIANGLE_STRIP attrs = None"
      "length vs = nat N2 * sz"
    and compat: "N1 + N2 + 2 \<le> 65535"
      "1 < length attrs \<longrightarrow> bufferLayout g = bl \<and> bl = InterleavedBuffer"
  shows "Append am g N2 vs None TRIANGLE_STRIP attrs bl =
     Ok (g\<lparr>vertexCount := N1 + N2 + (if even N1 then 2 else 3),
            vertices := vertices g @ drop ((nat N1 - 1) * sz) (vertices g) @ take sz vs @
                        (if even N1 then [] else take sz vs) @ vs\<rparr>)"
proof -
  have N2: "2 \<le> N2"
    using AssertValidGeometry_primitive [OF run(1)]
    by (simp add: effectiveIndexCount_def slice_len_def split: if_splits)
  have checks: "Append_checks g N2 vs None TRIANGLE_STRIP attrs bl = None"
    using run(1) g compat by (intro Append_checks_compatible) simp_all
  have size: "go_div (int (length vs)) N2 = int sz"
    using N2 by (simp add: go_div_nonneg run(2))
  have le1: "sz \<le> length (vertices g)"
    using nonempty by (cases "nat N1") (simp_all add: g(5))
  have le2: "sz \<le> length vs"
    using N2 by (cases "nat N2") (simp_all add: run(2))
  have last: "length (vertices g) - sz = (nat N1 - 1) * sz"
    by (simp add: g(5) diff_mult_distrib)
  have par: "go_mod N1 2 = (if even N1 then 0 else 1)"
    using nonempty by (simp add: go_mod_nonneg) presburger
  have dup: "duplicate_vertices g N2 vs =
      Ok (g\<lparr>vertices := vertices g @ drop ((nat N1 - 1) * sz) (vertices g) @ take sz vs @
                (if even N1 then [] else take sz vs)\<rparr>)"
    using N2 le1 le2 by (simp add: duplicate_vertices_def size Let_def last g(1) par)
  have st: "stitch g N2 vs None =
      Ok (g\<lparr>vertices := vertices g @ drop ((nat N1 - 1) * sz) (vertices g) @ take sz vs @
                (if even N1 then [] else take sz vs),
             vertexCount := N1 + (if even N1 then 2 else 3)\<rparr>)"
    by (simp add: stitch_def dup g(1) par)
  show ?thesis
    using nonempty
    by (simp add: Append_def g(1) checks st merge_run_def Let_def g(2) append_slice_def
        slice_len_def)
qed

theorem Append_strip_nonindexed_witness:
  "Append Aborting
     \<lparr>vertexCount = 3, vertices = [10, 11, 12], indices = None,
      primitiveType = TRIANGLE_STRIP, vertexAttributes = [''position''],
      bufferLayout = InterleavedBuffer\<rparr>
     2 [20, 21] None TRIANGLE_STRIP [''position''] InterleavedBuffer =
   Ok \<lparr>vertexCount = 8, vertices = [10, 11, 12, 12, 20, 20, 20, 21], indices = None,
       primitiveType = TRIANGLE_STRIP, vertexAttributes = [''position''],
       bufferLayout = InterleavedBuffer\<rparr> \<and>
   Append Reporting
     \<lparr>vertexCount = 3, vertices = [10, 11, 12], indices = None,
      primitiveType = TRIANGLE_STRIP, vertexAttributes = [''position''],
      bufferLayout = InterleavedBuffer\<rparr>
     2 [20, 21] None TRIANGLE_STRIP [''position''] InterleavedBuffer =
   Ok \<lparr>vertexCount = 8, vertices = [10, 11, 12, 12, 20, 20, 20, 21], indices = None,
       primitiveType = TRIANGLE_STRIP, vertexAttributes = [''position''],
       bufferLayout = InterleavedBuffer\<rparr>"
proof -
  let ?g = "\<lparr>vertexCount = 3, vertices = [10, 11, 12], indices = None,
             primitiveType = TRIANGLE_STRIP, vertexAttributes = [''position''],
             bufferLayout = InterleavedBuffer\<rparr>"
  have v: "AssertValidGeometry None 2 [20, 21] None TRIANGLE_STRIP [''position''] = None"
    by code_simp
  show ?thesis
    using
      Append_strip_nonindexed [of 3 ?g "[''position'']" 1 2 "[20, 21]" InterleavedBuffer
        Aborting, OF _ _ _ _ _ _ v]
      Append_strip_nonindexed [of 3 ?g "[''position'']" 1 2 "[20, 21]" InterleavedBuffer
        Reporting, OF _ _ _ _ _ _ v]
    by simp
qed

text \<open>
  The indexed branch for any geometry and run: whatever the existing indices are, the first
  index appended at the join is 0, and the vertex count grows by 2 or 3 beyond the incoming
  vertices although the vertex data grows by the incoming data only.
\<close>

lemma Append_strip_indexed:
  assumes nonempty: "0 < N1"
    and g: "vertexCount g = N1" "indices g = Some old" "primitiveType g = TRIANGLE_STRIP"
    and checks: "Append_checks g N2 vs (Some (i0 # rest)) TRIANGLE_STRIP attrs bl = None"
  shows "Append am g N2 vs (Some (i0 # rest)) TRIANGLE_STRIP attrs bl =
     Ok (g\<lparr>vertexCount := N1 + N2 + (if even N1 then 2 else 3),
            vertices := vertices g @ vs,
            indices := Some (old @ [0, i0 + word_of_int N1] @
                             (if even N1 then [] else [i0 + word_of_int N1]) @
                             map (\<lambda>x. x + word_of_int (N1 + (if even N1 then 2 else 3)))
                               (i0 # rest))\<rparr>)"
proof -
  have par: "go_mod N1 2 = (if even N1 then 0 else 1)"
    using nonempty by (simp add: go_mod_nonneg) presburger
  have st: "stitch g N2 vs (Some (i0 # rest)) =
      Ok (g\<lparr>indices := Some (old @ [0, i0 + word_of_int N1] @
                               (if even N1 then [] else [i0 + word_of_int N1])),
             vertexCount := N1 + (if even N1 then 2 else 3)\<rparr>)"
    by (simp add: stitch_def duplicate_indices_def Let_def g append_slice_def slice_elems_def par)
  show ?thesis
    using nonempty
    by (simp add: Append_def g(1) checks st merge_run_def Let_def append_slice_def
        slice_len_def slice_elems_def offset_indices_def)
qed

lemma index_scan_okay:
  "index_scan vc is acc = (mn, mx, True) \<Longrightarrow> \<forall>i \<in> set is. uint i < vc"
proof (induction "is" arbitrary: acc)
  case Nil
  then show ?case by simp
next
  case (Cons i "is")
  obtain a b c where acc: "acc = (a, b, c)" by (cases acc)
  show ?case
  proof (cases "vc \<le> uint i")
    case True
    have "\<And>xs a b. snd (snd (index_scan vc xs (a, b, False))) = False"
    proof -
      fix xs a b show "snd (snd (index_scan vc xs (a, b, False))) = False"
        by (induction xs arbitrary: a b) (simp_all add: Let_def)
    qed
    with Cons.prems True acc show ?thesis
      by (simp add: Let_def) (metis snd_conv)
  next
    case False
    with Cons acc show ?thesis by (auto simp: Let_def)
  qed
qed

lemma AssertValidGeometry_indices_in_range:
  assumes "AssertValidGeometry sp vc vs (Some xs) pt attrs = None"
  shows "\<forall>i \<in> set xs. uint i < vc"
proof (cases "xs = []")
  case True
  then show ?thesis by simp
next
  case False
  then have "0 < int (slice_len (Some xs))" by (simp add: slice_len_def)
  with assms obtain mn mx where "index_scan vc xs (vc, - 1, True) = (mn, mx, True)"
    by (auto simp: AssertValidGeometry_def Let_def slice_elems_def
        split: if_splits prod.splits)
  then show ?thesis by (rule index_scan_okay)
qed

lemma AssertValidGeometry_empty_run:
  assumes "is' = None \<or> is' = Some []"
  shows "AssertValidGeometry None 0 [] is' pt attrs = primitive_switch pt 0"
  using assms
  by (auto simp: AssertValidGeometry_def Let_def slice_len_def slice_elems_def
      effectiveIndexCount_def split: option.splits)

lemma merge_run_empty:
  assumes "is' = None \<or> is' = Some []" "(is' = None) = (indices g = None)"
  shows "merge_run g 0 [] is' = g"
  using assms
  by (auto simp: merge_run_def Let_def append_slice_def slice_len_def slice_elems_def
      offset_indices_def split: option.splits)

text \<open>
  C9, as the code has it, for either behaviour of the assertions. On a geometry that a
  successful \<open>Set\<close> established (the call returned and, where assertions only report, the
  validator accepted the arguments), \<open>Append\<close> of a zero-length run (vertex count 0, no
  vertex data, no indices or an empty index slice as the geometry is indexed or not, same
  primitive type, attributes and buffer layout) returns with the geometry unchanged when the
  primitive type is Points, Lines or Triangles, the geometry has at most 65533 vertices and,
  with more than one attribute, the interleaved layout. For TriangleStrip the zero-length
  run ends the call, and the geometry is unchanged as well: the validator rejects the run,
  and where its assertion returns, the stitching panics before its first assignment.
\<close>

theorem Append_empty_run:
  assumes set: "Set am g0 vc vs is pt attrs bl = Ok g"
    and accepted: "am = Reporting \<longrightarrow> AssertValidGeometry None vc vs is pt attrs = None"
    and run: "is' = None \<or> is' = Some []" "(is' = None) = (is = None)"
  shows "((pt = POINTS \<or> pt = LINES \<or> pt = TRIANGLES) \<and> vc + 2 \<le> 65535 \<and>
          (1 < length attrs \<longrightarrow> bl = InterleavedBuffer) \<longrightarrow>
            Append am g 0 [] is' pt attrs bl = Ok g) \<and>
         (pt = TRIANGLE_STRIP \<longrightarrow>
            Append am g 0 [] is' pt attrs bl =
              Panic (case am of Aborting \<Rightarrow> IndexCountMismatch | Reporting \<Rightarrow> RuntimePanic) g)"
proof -
  from set accepted have valid: "AssertValidGeometry None vc vs is pt attrs = None"
    by (cases am) (auto simp: Set_def split: option.splits)
  from set valid have g: "g = g0\<lparr>vertexCount := vc, vertices := vs, indices := is,
      primitiveType := pt, vertexAttributes := attrs, bufferLayout := bl\<rparr>"
    by (auto simp: Set_def split: option.splits)
  have sw: "primitive_switch pt (effectiveIndexCount vc is) = None"
    using valid by (rule AssertValidGeometry_primitive)
  have noop: "Append am g 0 [] is' pt attrs bl = Ok g"
    if pt: "pt = POINTS \<or> pt = LINES \<or> pt = TRIANGLES" and bound: "vc + 2 \<le> 65535"
      and layout: "1 < length attrs \<longrightarrow> bl = InterleavedBuffer"
  proof (cases "vc = 0")
    case True
    have "vs = []"
      using valid True by (auto dest: AssertValidGeometry_empty_data)
    moreover have "is = is'"
    proof (cases "is")
      case None
      with run show ?thesis by simp
    next
      case (Some xs)
      with valid have "\<forall>i \<in> set xs. uint i < vc"
        by (auto dest: AssertValidGeometry_indices_in_range)
      with True have "xs = []"
        by (cases xs) (auto simp: not_less)
      with Some run show ?thesis by auto
    qed
    moreover have "AssertValidGeometry None 0 [] is' pt attrs = None"
      using pt by (auto simp: AssertValidGeometry_empty_run [OF run(1)] go_mod_def)
    ultimately show ?thesis
      using True by (simp add: Append_def Set_def g)
  next
    case False
    have "AssertValidGeometry None 0 [] is' pt attrs = None"
      using pt by (auto simp: AssertValidGeometry_empty_run [OF run(1)] go_mod_def)
    then have "Append_checks g 0 [] is' pt attrs bl = None"
      using pt bound layout run by (intro Append_checks_compatible) (auto simp: g)
    moreover have "merge_run g 0 [] is' = g"
      using run by (intro merge_run_empty) (auto simp: g)
    ultimately show ?thesis
      using False pt by (auto simp: Append_def g)
  qed
  have strip: "Append am g 0 [] is' pt attrs bl =
      Panic (case am of Aborting \<Rightarrow> IndexCountMismatch | Reporting \<Rightarrow> RuntimePanic) g"
    if pt: "pt = TRIANGLE_STRIP"
  proof -
    have nz: "vc \<noteq> 0"
    proof (cases "slice_len is = 0")
      case True
      with sw pt show ?thesis by (auto simp: effectiveIndexCount_def split: if_splits)
    next
      case False
      then obtain x xs where "is = Some (x # xs)"
        by (cases "is"; cases "the is") (auto simp: slice_len_def)
      with valid have "uint x < vc"
        by (auto dest: AssertValidGeometry_indices_in_range)
      then show ?thesis by (smt (verit) uint_ge_0)
    qed
    have rejected: "AssertValidGeometry None 0 [] is' pt attrs = Some IndexCountMismatch"
      using pt by (simp add: AssertValidGeometry_empty_run [OF run(1)])
    show ?thesis
    proof (cases am)
      case Aborting
      with nz rejected show ?thesis
        by (simp add: Append_def Append_checks_def g)
    next
      case Reporting
      have "stitch g 0 [] is' = Panic RuntimePanic g"
        using run(1) by (auto simp: stitch_def duplicate_vertices_def duplicate_indices_def)
      with nz Reporting pt show ?thesis
        by (simp add: Append_def g)
    qed
  qed
  show ?thesis using noop strip by blast
qed

theorem Append_empty_run_witness:
  "Append Aborting
     \<lparr>vertexCount = 3, vertices = [10, 11, 12], indices = Some [0, 1, 2],
      primitiveType = TRIANGLES, vertexAttributes = [''position''],
      bufferLayout = InterleavedBuffer\<rparr>
     0 [] (Some []) TRIANGLES [''position''] InterleavedBuffer =
   Ok \<lparr>vertexCount = 3, vertices = [10, 11, 12], indices = Some [0, 1, 2],
       primitiveType = TRIANGLES, vertexAttributes = [''position''],
       bufferLayout = InterleavedBuffer\<rparr> \<and>
   Append Aborting
     \<lparr>vertexCount = 3, vertices = [10, 11, 12], indices = Some [0, 1, 2],
      primitiveType = TRIANGLE_STRIP, vertexAttributes = [''position''],
      bufferLayout = InterleavedBuffer\<rparr>
     0 [] (Some []) TRIANGLE_STRIP [''position''] InterleavedBuffer =
   Panic IndexCountMismatch
     \<lparr>vertexCount = 3, vertices = [10, 11, 12], indices = Some [0, 1, 2],
      primitiveType = TRIANGLE_STRIP, vertexAttributes = [''position''],
      bufferLayout = InterleavedBuffer\<rparr> \<and>
   Append Reporting
     \<lparr>vertexCount = 3, vertices = [10, 11, 12], indices = Some [0, 1, 2],
      primitiveType = TRIANGLES, vertexAttributes = [''position''],
      bufferLayout = InterleavedBuffer\<rparr>
     0 [] (Some []) TRIANGLES [''position''] InterleavedBuffer =
   Ok \<lparr>vertexCount = 3, vertices = [10, 11, 12], indices = Some [0, 1, 2],
       primitiveType = TRIANGLES, vertexAttributes = [''position''],
       bufferLayout = InterleavedBuffer\<rparr> \<and>
   Append Reporting
     \<lparr>vertexCount = 3, vertices = [10, 11, 12], indices = Some [0, 1, 2],
      primitiveType = TRIANGLE_STRIP, vertexAttributes = [''position''],
      bufferLayout = InterleavedBuffer\<rparr>
     0 [] (Some []) TRIANGLE_STRIP [''position''] InterleavedBuffer =
   Panic RuntimePanic
     \<lparr>vertexCount = 3, vertices = [10, 11, 12], indices = Some [0, 1, 2],
      primitiveType = TRIANGLE_STRIP, vertexAttributes = [''position''],
      bufferLayout = InterleavedBuffer\<rparr>"
proof -
  have t: "Set am emptyGeometry 3 [10, 11, 12] (Some [0, 1, 2]) TRIANGLES [''position'']
        InterleavedBuffer =
      Ok \<lparr>vertexCount = 3, vertices = [10, 11, 12], indices = Some [0, 1, 2],
          primitiveType = TRIANGLES, vertexAttributes = [''position''],
          bufferLayout = InterleavedBuffer\<rparr>" for am
  proof (cases am)
    case Aborting
    show ?thesis unfolding Aborting by code_simp
  next
    case Reporting
    show ?thesis unfolding Reporting by code_simp
  qed
  have s: "Set am emptyGeometry 3 [10, 11, 12] (Some [0, 1, 2]) TRIANGLE_STRIP [''position'']
        InterleavedBuffer =
      Ok \<lparr>vertexCount = 3, vertices = [10, 11, 12], indices = Some [0, 1, 2],
          primitiveType = TRIANGLE_STRIP, vertexAttributes = [''position''],
          bufferLayout = InterleavedBuffer\<rparr>" for am
  proof (cases am)
    case Aborting
    show ?thesis unfolding Aborting by code_simp
  next
    case Reporting
    show ?thesis unfolding Reporting by code_simp
  qed
  have vt: "AssertValidGeometry None 3 [10, 11, 12] (Some [0, 1, 2]) TRIANGLES [''position''] =
      None"
    by code_simp
  have vs: "AssertValidGeometry None 3 [10, 11, 12] (Some [0, 1, 2]) TRIANGLE_STRIP
      [''position''] = None"
    by code_simp
  show ?thesis
    using Append_empty_run [OF t [of Aborting], of "Some []"]
      Append_empty_run [OF s [of Aborting], of "Some []"]
      Append_empty_run [OF t [of Reporting], of "Some []"]
      Append_empty_run [OF s [of Reporting], of "Some []"] vt vs
    by simp
qed

text \<open>
  C9 as the claim words it fails for TriangleStrip, a primitive type that \<open>Set\<close> and \<open>Append\<close>
  both support: the zero-length run is rejected, not accepted as a no-op, whether the
  assertions abort or report.
\<close>

theorem empty_strip_run_rejected:
  "Set Aborting emptyGeometry 3 [10, 11, 12] None TRIANGLE_STRIP [''position'']
     InterleavedBuffer =
     Ok \<lparr>vertexCount = 3, vertices = [10, 11, 12], indices = None,
         primitiveType = TRIANGLE_STRIP, vertexAttributes = [''position''],
         bufferLayout = InterleavedBuffer\<rparr> \<and>
   Append Aborting
     \<lparr>vertexCount = 3, vertices = [10, 11, 12], indices = None,
      primitiveType = TRIANGLE_STRIP, vertexAttributes = [''position''],
      bufferLayout = InterleavedBuffer\<rparr>
     0 [] None TRIANGLE_STRIP [''position''] InterleavedBuffer =
   Panic IndexCountMismatch
     \<lparr>vertexCount = 3, vertices = [10, 11, 12], indices = None,
      primitiveType = TRIANGLE_STRIP, vertexAttributes = [''position''],
      bufferLayout = InterleavedBuffer\<rparr> \<and>
   AssertValidGeometry None 3 [10, 11, 12] None TRIANGLE_STRIP [''position''] = None \<and>
   Set Reporting emptyGeometry 3 [10, 11, 12] None TRIANGLE_STRIP [''position'']
     InterleavedBuffer =
     Ok \<lparr>vertexCount = 3, vertices = [10, 11, 12], indices = None,
         primitiveType = TRIANGLE_STRIP, vertexAttributes = [''position''],
         bufferLayout = InterleavedBuffer\<rparr> \<and>
   Append Reporting
     \<lparr>vertexCount = 3, vertices = [10, 11, 12], indices = None,
      primitiveType = TRIANGLE_STRIP, vertexAttributes = [''position''],
      bufferLayout = InterleavedBuffer\<rparr>
     0 [] None TRIANGLE_STRIP [''position''] InterleavedBuffer =
   Panic RuntimePanic
     \<lparr>vertexCount = 3, vertices = [10, 11, 12], indices = None,
      primitiveType = TRIANGLE_STRIP, vertexAttributes = [''position''],
      bufferLayout = InterleavedBuffer\<rparr>"
  by code_simp

section \<open>The size check in float32\<close>

text \<open>
  The validator compares \<^verbatim>\<open>float32(len(vertices))/float32(vertexCount)\<close> with
  \<^verbatim>\<open>float32(vertexSize)\<close>. Below \<open>2\<^sup>2\<^sup>4\<close> floats every number involved is exact or
  rounded by less than the gap to the next whole quotient, and the comparison holds exactly
  when the vertex count divides the number of floats.
\<close>

lemma bitlen_nat_0 [simp]: "bitlen_nat 0 = 0"
  by (simp add: bitlen_nat.simps [of 0])

lemma bitlen_nat_pos: "0 < n \<Longrightarrow> bitlen_nat n = Suc (bitlen_nat (n div 2))"
  by (subst bitlen_nat.simps) simp

lemma bitlen_nat_bounds:
  "0 < n \<Longrightarrow> 2 ^ (bitlen_nat n - 1) \<le> n \<and> n < 2 ^ bitlen_nat n"
proof (induction n rule: bitlen_nat.induct)
  case (1 n)
  show ?case
  proof (cases "n div 2 = 0")
    case True
    with "1.prems" have "n = 1" by (simp add: div_eq_0_iff) 
    then show ?thesis by (simp add: bitlen_nat_pos)
  next
    case False
    with "1.IH" "1.prems" have ih: "2 ^ (bitlen_nat (n div 2) - 1) \<le> n div 2"
      "n div 2 < 2 ^ bitlen_nat (n div 2)"
      by auto
    obtain j where j: "bitlen_nat (n div 2) = Suc j"
      using False by (auto simp: bitlen_nat_pos)
    have eq: "bitlen_nat n = Suc (Suc j)"
      using "1.prems" j by (simp add: bitlen_nat_pos)
    have "2 * 2 ^ j \<le> 2 * (n div 2)"
      using ih(1) j by simp
    then have "2 * 2 ^ j \<le> n" by linarith
    moreover have "n < 2 * (2 * 2 ^ j)"
      using ih(2) j by simp
    ultimately show ?thesis by (simp add: eq)
  qed
qed

lemma pow2_pos [simp]: "0 < pow2 e"
  by (simp add: pow2_def)

lemma pow2_nat: "pow2 (int k) = 2 ^ k"
  by (simp add: pow2_def)

lemma pow2_neg: "pow2 (- int k) = 1 / 2 ^ k"
  by (simp add: pow2_def)

lemma pow2_powi: "pow2 e = 2 powi e"
  by (simp add: pow2_def power_int_def power_one_over inverse_eq_divide)

lemma pow2_add: "pow2 (a + b) = pow2 a * pow2 b"
  by (simp add: pow2_powi power_int_add)


lemma pow2_mono: "a \<le> b \<Longrightarrow> pow2 a \<le> pow2 b"
proof -
  assume "a \<le> b"
  then obtain k where b: "b = a + int k" by (metis zle_iff_zadd)
  have "(1 :: rat) \<le> 2 ^ k" by simp
  then show ?thesis
    by (simp add: b pow2_add pow2_nat)
qed

lemma bitlen_nat_rat:
  assumes "0 < n"
  shows "(2 :: rat) ^ (bitlen_nat n - 1) \<le> of_nat n" "of_nat n + 1 \<le> (2 :: rat) ^ bitlen_nat n"
proof -
  from bitlen_nat_bounds [OF assms]
  have a: "2 ^ (bitlen_nat n - 1) \<le> n" and b: "Suc n \<le> 2 ^ bitlen_nat n"
    by simp_all
  have "(of_nat (2 ^ (bitlen_nat n - 1)) :: rat) \<le> of_nat n"
    using a by (simp only: of_nat_le_iff)
  then show "(2 :: rat) ^ (bitlen_nat n - 1) \<le> of_nat n" by simp
  have "(of_nat (Suc n) :: rat) \<le> of_nat (2 ^ bitlen_nat n)"
    using b by (simp only: of_nat_le_iff)
  then show "of_nat n + 1 \<le> (2 :: rat) ^ bitlen_nat n" by simp
qed


lemma binade_bounds:
  assumes "0 < a"
  shows "pow2 (binade a - 1) \<le> a \<and> a < pow2 (binade a)"
proof (cases "1 \<le> a")
  case True
  define n where "n = nat \<lfloor>a\<rfloor>"
  have fl: "1 \<le> \<lfloor>a\<rfloor>" using True by simp
  have n: "0 < n" using fl by (simp add: n_def)
  have "(of_nat n :: rat) = of_int \<lfloor>a\<rfloor>"
    using fl by (simp add: n_def)
  then have na: "of_nat n \<le> a" "a < of_nat n + 1"
    by (simp_all add: floor_less_iff [symmetric]) linarith+
  obtain j where j: "bitlen_nat n = Suc j"
    using n by (auto simp: bitlen_nat_pos)
  have "binade a = int (Suc j)"
    using True by (simp add: binade_def n_def [symmetric] j)
  then have "pow2 (binade a - 1) = 2 ^ j" "pow2 (binade a) = 2 ^ Suc j"
    using pow2_nat [of j] pow2_nat [of "Suc j"] by simp_all
  moreover have "(2 :: rat) ^ j \<le> of_nat n" "of_nat n + 1 \<le> (2 :: rat) ^ Suc j"
    using bitlen_nat_rat [OF n] by (simp_all only: j diff_Suc_1)
  ultimately show ?thesis
    using na by (simp only:) linarith
next
  case False
  define c where "c = \<lceil>1 / a\<rceil>"
  define n where "n = nat (c - 1)"
  have y: "1 < 1 / a" using assms False by simp
  have c: "1 / a \<le> of_int c" "of_int c - 1 < 1 / a"
    unfolding c_def by linarith+
  have c1: "1 < c" using y c(1) by linarith
  have n: "0 < n" using c1 by (simp add: n_def)
  have nc: "(of_nat n :: rat) = of_int c - 1"
    using c1 by (simp add: n_def)
  obtain j where j: "bitlen_nat n = Suc j"
    using n by (auto simp: bitlen_nat_pos)
  have b: "(2 :: rat) ^ j \<le> of_nat n" "of_nat n + 1 \<le> (2 :: rat) ^ Suc j"
    using bitlen_nat_rat [OF n] by (simp_all add: j)
  have up: "1 / a \<le> 2 ^ Suc j" using b(2) c(1) nc by linarith
  have lo: "2 ^ j < 1 / a" using b(1) c(2) nc by linarith
  have "1 / 2 ^ Suc j \<le> a"
  proof -
    have "1 \<le> a * 2 ^ Suc j" using up assms by (simp add: field_simps)
    then show ?thesis by (simp add: field_simps)
  qed
  moreover have "a < 1 / 2 ^ j"
  proof -
    have "a * 2 ^ j < 1" using lo assms by (simp add: field_simps)
    then show ?thesis by (simp add: field_simps)
  qed
  moreover have "binade a = - int j"
    using False by (simp add: binade_def c_def [symmetric] n_def [symmetric] j)
  moreover have "pow2 (- int j - 1) = 1 / 2 ^ Suc j"
  proof -
    have "- int j - 1 = - int (Suc j)" by simp
    then show ?thesis by (simp only: pow2_neg)
  qed
  ultimately show ?thesis
    by (simp add: pow2_neg)
qed

lemma round_even_error: "\<bar>of_int (round_even q) - q\<bar> \<le> 1 / 2"
proof -
  have "of_int \<lfloor>q\<rfloor> \<le> q" "q < of_int \<lfloor>q\<rfloor> + 1" by linarith+
  then show ?thesis
    unfolding round_even_def Let_def by (simp add: abs_if) linarith
qed

lemma round_even_int [simp]: "round_even (of_int z) = z"
  by (simp add: round_even_def)


lemma pow2_half: "pow2 (e - 1) = pow2 e / 2"
proof -
  have "pow2 (e - 1) = pow2 (e + - int 1)" by simp
  also have "\<dots> = pow2 e * (1 / 2 ^ 1)" by (simp only: pow2_add pow2_neg)
  finally show ?thesis by simp
qed

lemma pow2_shift: "pow2 (e - int k) = pow2 e / 2 ^ k"
proof -
  have "pow2 (e - int k) = pow2 (e + - int k)" by simp
  also have "\<dots> = pow2 e * (1 / 2 ^ k)" by (simp only: pow2_add pow2_neg)
  finally show ?thesis by simp
qed

lemma f32_error:
  assumes "0 < x"
  shows "\<bar>f32 x - x\<bar> \<le> pow2 (binade x - 25)"
proof -
  define ulp where "ulp = pow2 (binade x - 24)"
  have ulp: "0 < ulp" by (simp add: ulp_def)
  have f: "f32 x = of_int (round_even (x / ulp)) * ulp"
    using assms by (simp add: f32_def Let_def ulp_def)
  have "f32 x - x = (of_int (round_even (x / ulp)) - x / ulp) * ulp"
    using ulp by (simp add: f algebra_simps)
  then have "\<bar>f32 x - x\<bar> = \<bar>of_int (round_even (x / ulp)) - x / ulp\<bar> * ulp"
    using ulp by (simp add: abs_mult)
  also have "\<dots> \<le> 1 / 2 * ulp"
    using round_even_error [of "x / ulp"] ulp by (intro mult_right_mono) simp_all
  also have "\<dots> = pow2 (binade x - 25)"
    using pow2_half [of "binade x - 24"] by (simp add: ulp_def)
  finally show ?thesis .
qed

lemma f32_pos:
  assumes "0 < x"
  shows "0 < f32 x"
proof -
  have "pow2 (binade x - 25) = pow2 (binade x - 1) / 2 ^ 24"
    using pow2_shift [of "binade x - 1" 24] by simp
  moreover have "pow2 (binade x - 1) / 2 ^ 24 < pow2 (binade x - 1)"
    using pow2_pos [of "binade x - 1"] by (simp add: field_simps)
  ultimately have "pow2 (binade x - 25) < x"
    using binade_bounds [OF assms] by linarith
  then show ?thesis
    using f32_error [OF assms] by (simp add: abs_if split: if_splits)
qed

lemma f32_exact:
  assumes "n < 2 ^ 24"
  shows "f32 (of_nat n) = of_nat n"
proof (cases "n = 0")
  case True
  then show ?thesis by (simp add: f32_def)
next
  case False
  let ?x = "of_nat n :: rat"
  have x: "0 < ?x" using False by simp
  have "\<not> 25 \<le> binade ?x"
  proof
    assume "25 \<le> binade ?x"
    then have "pow2 24 \<le> pow2 (binade ?x - 1)" by (intro pow2_mono) simp
    moreover have "pow2 24 = 2 ^ 24" using pow2_nat [of 24] by simp
    moreover have "?x < 2 ^ 24"
    proof -
      have "(of_nat n :: rat) < of_nat (2 ^ 24)"
        using assms by (simp only: of_nat_less_iff)
      then show ?thesis by simp
    qed
    ultimately show False using binade_bounds [OF x] by linarith
  qed
  then have "binade ?x - 24 = - int (nat (24 - binade ?x))"
    by simp
  then obtain d where d: "binade ?x - 24 = - int d" ..
  have "?x / pow2 (- int d) = of_int (int n * 2 ^ d)"
    by (simp add: pow2_neg)
  then have "round_even (?x / pow2 (- int d)) = int n * 2 ^ d"
    by (simp only: round_even_int)
  then show ?thesis
    using x by (simp add: f32_def Let_def d pow2_neg)
qed


lemma f32_of_int_exact:
  assumes "0 \<le> z" "z < 2 ^ 24"
  shows "f32_of_int z = of_int z"
proof -
  have "nat z < 2 ^ 24" using assms by (simp add: nat_less_iff)
  then have "f32 (of_nat (nat z)) = of_nat (nat z)" by (rule f32_exact)
  then show ?thesis using assms(1) by (simp add: f32_of_int_def)
qed

lemma size_check_iff:
  assumes vc: "0 < vc" and n: "n < 2 ^ 24"
  shows "f32_div (f32_of_int (int n)) (f32_of_int vc) = f32_of_int (go_div (int n) vc)
     \<longleftrightarrow> vc dvd int n"
proof -
  have fn: "f32_of_int (int n) = of_nat n"
    using f32_of_int_exact [of "int n"] n by simp
  have gd: "go_div (int n) vc = int n div vc"
    using vc by (simp add: go_div_nonneg)
  have q: "0 \<le> int n div vc" "int n div vc \<le> int n"
  proof -
    show "0 \<le> int n div vc"
      using vc by (simp add: pos_imp_zdiv_nonneg_iff)
    have "int n div vc \<le> int n div 1"
      using vc by (intro zdiv_mono2) simp_all
    then show "int n div vc \<le> int n" by simp
  qed
  have fq: "f32_of_int (int n div vc) = of_int (int n div vc)"
    using q n by (intro f32_of_int_exact) simp_all
  show ?thesis
  proof (cases "n = 0")
    case True
    then show ?thesis by (simp add: f32_div_def f32_of_int_def f32_def go_div_def)
  next
    case False
    then have npos: "0 < (of_nat n :: rat)" by simp
    show ?thesis
    proof (cases "int n < vc")
      case True
      have "0 < f32_of_int vc"
        unfolding f32_of_int_def using vc by (intro f32_pos) simp
      then have "0 < f32 (of_nat n / f32_of_int vc)"
        using npos by (intro f32_pos) simp
      moreover have "int n div vc = 0" using True by simp
      moreover have "\<not> vc dvd int n"
        using True False by (simp add: zdvd_not_zless)
      moreover have "f32_div (f32_of_int (int n)) (f32_of_int vc) =
          f32 (of_nat n / f32_of_int vc)"
        by (simp add: f32_div_def fn)
      moreover have "f32_of_int 0 = 0"
        by (simp add: f32_of_int_def f32_def)
      ultimately show ?thesis
        by (simp add: gd)
    next
      case large: False
      then have "vc < 2 ^ 24" using n by simp
      then have fv: "f32_of_int vc = of_int vc"
        using vc by (intro f32_of_int_exact) simp_all
      define x :: rat where "x = of_nat n / of_int vc"
      have xpos: "0 < x" using npos vc by (simp add: x_def)
      have lhs: "f32_div (f32_of_int (int n)) (f32_of_int vc) = f32 x"
        by (simp add: f32_div_def fn fv x_def)
      have split: "(of_nat n :: rat) = of_int vc * of_int (int n div vc) + of_int (int n mod vc)"
      proof -
        have "(of_int (int n) :: rat) = of_int (vc * (int n div vc) + int n mod vc)"
          by simp
        then show ?thesis
          by (simp only: of_int_add of_int_mult of_int_of_nat_eq)
      qed
      show ?thesis
      proof (cases "vc dvd int n")
        case True
        then have "int n mod vc = 0" by simp
        with split have "x = of_int (int n div vc)"
          using vc by (simp add: x_def)
        then have "f32 x = of_int (int n div vc)"
          using fq by (simp add: f32_of_int_def)
        with True show ?thesis by (simp add: lhs gd fq)
      next
        case False
        then have "0 < int n mod vc"
          using vc by (simp add: dvd_eq_mod_eq_0 less_le)
        then have "(1 :: rat) \<le> of_int (int n mod vc)"
          by (metis int_one_le_iff_zero_less of_int_1 of_int_le_iff)
        then have gap: "of_int (int n div vc) + 1 / of_int vc \<le> x"
          using vc by (simp add: x_def split field_simps)
        have "pow2 (binade x - 25) = pow2 (binade x - 1) / 2 ^ 24"
          using pow2_shift [of "binade x - 1" 24] by simp
        also have "\<dots> \<le> x / 2 ^ 24"
          using binade_bounds [OF xpos] by (simp add: divide_right_mono)
        also have "\<dots> < 1 / of_int vc"
        proof -
          have "(of_nat n :: rat) < of_nat (2 ^ 24)"
            using n by (simp only: of_nat_less_iff)
          then have "(of_nat n :: rat) < 2 ^ 24" by simp
          then show ?thesis using vc by (simp add: x_def field_simps)
        qed
        finally have "pow2 (binade x - 25) < 1 / of_int vc" .
        with f32_error [OF xpos] gap have "of_int (int n div vc) < f32 x"
          by (simp add: abs_if split: if_splits)
        with False show ?thesis by (simp add: lhs gd fq)
      qed
    qed
  qed
qed

lemma Set_establishes_sizes:
  assumes "Set Aborting g0 vc vs is pt attrs bl = Ok g" and "length vs < 2 ^ 24"
  shows "vertexCount g dvd int (length (vertices g)) \<and>
         (\<forall>i \<in> set (slice_elems (indices g)). uint i < vertexCount g)"
proof -
  from assms(1) have valid: "AssertValidGeometry None vc vs is pt attrs = None"
    and g: "vertexCount g = vc" "vertices g = vs" "indices g = is"
    by (auto simp: Set_def split: option.splits)
  have "vc dvd int (length vs)"
  proof (cases "0 < vc")
    case True
    with valid have "f32_div (f32_of_int (int (length vs))) (f32_of_int vc) =
        f32_of_int (go_div (int (length vs)) vc)"
      by (auto simp: AssertValidGeometry_def Let_def split: if_splits)
    then show ?thesis
      using size_check_iff [OF True assms(2)] by simp
  next
    case False
    with valid have "vs = []" by (rule AssertValidGeometry_empty_data)
    then show ?thesis by simp
  qed
  moreover have "\<forall>i \<in> set (slice_elems is). uint i < vc"
    using valid AssertValidGeometry_indices_in_range [of None vc vs _ pt attrs]
    by (cases "is") (auto simp: slice_elems_def)
  ultimately show ?thesis by (simp add: g)
qed

section \<open>Properties of the text layout\<close>

lemma length_copy_into [simp]: "length (copy_into dst off src) = length dst"
  by (simp add: copy_into_def)

lemma copy_into_padding:
  "off + length src \<le> length dst \<Longrightarrow> copy_into (dst @ pad) off src = copy_into dst off src @ pad"
  by (simp add: copy_into_def)

lemma length_quad [simp]: "length (quad f sc x y r c) = 16"
  by (simp add: quad_def Let_def split: prod.splits)

lemma layout_loop_append:
  "layout_loop a f twp sc (xs @ ys) s =
     (case layout_loop a f twp sc xs s of
        Inl e \<Rightarrow> Inl e
      | Inr s' \<Rightarrow> layout_loop a f twp sc ys s')"
  by (induction xs arbitrary: s) (simp_all split: sum.splits)

lemma vtx_offset_le: "unat (word_of_nat (4 * k) * 4 :: uint16) \<le> 16 * k"
proof -
  have "(word_of_nat (4 * k) * 4 :: uint16) = word_of_nat (16 * k)"
    by simp
  then show ?thesis
    by (simp only: unat_of_nat mod_less_eq_dividend)
qed

text \<open>
  The loop keeps \<open>vtx\<close> at four times and \<open>idx\<close> at six times the number of quads written,
  and no slice expression in it panics, whatever the length of the text: the wrapped offset
  \<open>vtx * 4\<close> is never beyond the buffer. An iteration ends the call only at a rune without a
  glyph, and only when assertions abort.
\<close>

lemma layout_step_runs:
  assumes "vtx s = word_of_nat (4 * k)" "idx s = 6 * k"
    and "16 * (k + 1) \<le> length (vbuf s)" "6 * (k + 1) \<le> length (ibuf s)"
    and "a = Reporting \<or> r = 13 \<or> r = 10 \<or> r = 9 \<or> Chars f r \<noteq> None"
  shows "\<exists>s'. layout_step a f twp sc r s = Inr s' \<and>
           vtx s' = word_of_nat (4 * (k + glyphs f [r])) \<and> idx s' = 6 * (k + glyphs f [r]) \<and>
           length (vbuf s') = length (vbuf s) \<and> length (ibuf s') = length (ibuf s)"
proof -
  have "unat (vtx s * 4) \<le> 16 * k"
    using vtx_offset_le [of k] by (simp add: assms(1))
  with assms show ?thesis
    by (auto simp: layout_step_def glyphs_def split: option.splits)
qed

lemma layout_loop_runs:
  assumes "vtx s = word_of_nat (4 * k)" "idx s = 6 * k"
    and "16 * (k + length rs) \<le> length (vbuf s)" "6 * (k + length rs) \<le> length (ibuf s)"
    and "a = Reporting \<or> (\<forall>r \<in> set rs. r = 13 \<or> r = 10 \<or> r = 9 \<or> Chars f r \<noteq> None)"
  shows "\<exists>s'. layout_loop a f twp sc rs s = Inr s' \<and>
           vtx s' = word_of_nat (4 * (k + glyphs f rs)) \<and> idx s' = 6 * (k + glyphs f rs) \<and>
           length (vbuf s') = length (vbuf s) \<and> length (ibuf s') = length (ibuf s)"
  using assms
proof (induction rs arbitrary: s k)
  case Nil
  then show ?case by (simp add: glyphs_def)
next
  case (Cons r rs)
  have g1: "glyphs f [r] \<le> 1" by (simp add: glyphs_def)
  have gc: "glyphs f (r # rs) = glyphs f [r] + glyphs f rs" by (simp add: glyphs_def)
  have here: "a = Reporting \<or> r = 13 \<or> r = 10 \<or> r = 9 \<or> Chars f r \<noteq> None"
    and rest: "a = Reporting \<or> (\<forall>r \<in> set rs. r = 13 \<or> r = 10 \<or> r = 9 \<or> Chars f r \<noteq> None)"
    using Cons.prems(5) by auto
  from Cons.prems here obtain s1 where s1: "layout_step a f twp sc r s = Inr s1"
    "vtx s1 = word_of_nat (4 * (k + glyphs f [r]))" "idx s1 = 6 * (k + glyphs f [r])"
    "length (vbuf s1) = length (vbuf s)" "length (ibuf s1) = length (ibuf s)"
    using layout_step_runs [of s k a r f twp sc] by auto
  have "\<exists>s'. layout_loop a f twp sc rs s1 = Inr s' \<and>
           vtx s' = word_of_nat (4 * (k + glyphs f [r] + glyphs f rs)) \<and>
           idx s' = 6 * (k + glyphs f [r] + glyphs f rs) \<and>
           length (vbuf s') = length (vbuf s1) \<and> length (ibuf s') = length (ibuf s1)"
    using Cons.prems(1-4) g1 s1 rest by (intro Cons.IH) auto
  then show ?case
    using s1 by (auto simp: gc add.assoc)
qed

lemma layout_step_padding:
  assumes "vtx s = word_of_nat (4 * k)" "idx s = 6 * k"
    and "16 * (k + 1) \<le> length (vbuf s)" "6 * (k + 1) \<le> length (ibuf s)"
  shows "layout_step a f twp sc r (s\<lparr>vbuf := vbuf s @ pv, ibuf := ibuf s @ pj\<rparr>) =
     (case layout_step a f twp sc r s of
        Inl e \<Rightarrow> Inl e
      | Inr s' \<Rightarrow> Inr (s'\<lparr>vbuf := vbuf s' @ pv, ibuf := ibuf s' @ pj\<rparr>))"
proof -
  have "unat (vtx s * 4) \<le> 16 * k"
    using vtx_offset_le [of k] by (simp add: assms(1))
  with assms show ?thesis
    by (cases a) (auto simp: layout_step_def copy_into_padding split: option.splits)
qed

lemma layout_loop_padding:
  assumes "vtx s = word_of_nat (4 * k)" "idx s = 6 * k"
    and "16 * (k + length rs) \<le> length (vbuf s)" "6 * (k + length rs) \<le> length (ibuf s)"
  shows "layout_loop Reporting f twp sc rs (s\<lparr>vbuf := vbuf s @ pv, ibuf := ibuf s @ pj\<rparr>) =
     (case layout_loop Reporting f twp sc rs s of
        Inl e \<Rightarrow> Inl e
      | Inr s' \<Rightarrow> Inr (s'\<lparr>vbuf := vbuf s' @ pv, ibuf := ibuf s' @ pj\<rparr>))"
  using assms
proof (induction rs arbitrary: s k)
  case Nil
  then show ?case by simp
next
  case (Cons r rs)
  have g1: "glyphs f [r] \<le> 1" by (simp add: glyphs_def)
  from Cons.prems obtain s1 where s1: "layout_step Reporting f twp sc r s = Inr s1"
    "vtx s1 = word_of_nat (4 * (k + glyphs f [r]))" "idx s1 = 6 * (k + glyphs f [r])"
    "length (vbuf s1) = length (vbuf s)" "length (ibuf s1) = length (ibuf s)"
    using layout_step_runs [of s k Reporting r f twp sc] by auto
  have pad: "layout_step Reporting f twp sc r (s\<lparr>vbuf := vbuf s @ pv, ibuf := ibuf s @ pj\<rparr>) =
      Inr (s1\<lparr>vbuf := vbuf s1 @ pv, ibuf := ibuf s1 @ pj\<rparr>)"
    using Cons.prems by (subst layout_step_padding [of s k]) (auto simp: s1(1))
  have "layout_loop Reporting f twp sc rs (s1\<lparr>vbuf := vbuf s1 @ pv, ibuf := ibuf s1 @ pj\<rparr>) =
     (case layout_loop Reporting f twp sc rs s1 of
        Inl e \<Rightarrow> Inl e
      | Inr s' \<Rightarrow> Inr (s'\<lparr>vbuf := vbuf s' @ pv, ibuf := ibuf s' @ pj\<rparr>))"
    using Cons.prems g1 s1 by (intro Cons.IH [of s1 "k + glyphs f [r]"]) auto
  then show ?case
    by (simp add: pad s1(1))
qed

lemma glyphs_le: "glyphs f rs \<le> length rs"
  by (simp add: glyphs_def)

lemma layout_start_runs:
  assumes "a = Reporting \<or> (\<forall>r \<in> set rs. r = 13 \<or> r = 10 \<or> r = 9 \<or> Chars f r \<noteq> None)"
  shows "\<exists>s. layout_loop a f twp sc rs (layout_start (length rs + p)) = Inr s \<and>
        vtx s = word_of_nat (4 * glyphs f rs) \<and> idx s = 6 * glyphs f rs \<and>
        length (vbuf s) = 16 * (length rs + p) \<and> length (ibuf s) = 6 * (length rs + p)"
  using layout_loop_runs [of "layout_start (length rs + p)" 0 rs a f twp sc] assms
  by (auto simp: layout_start_def)

lemma SetVertexData_Reporting:
  "SetVertexData Reporting m vc vs is pt attrs bl =
     Inr (m\<lparr>vertexData := (vertexData m)\<lparr>vertexCount := vc, vertices := vs, indices := is,
              primitiveType := pt, vertexAttributes := attrs, bufferLayout := bl\<rparr>\<rparr>)"
  by (simp add: SetVertexData_def Set_def)

lemma SetVertexData_valid:
  "AssertValidGeometry None vc vs is pt attrs = None \<Longrightarrow>
   SetVertexData a m vc vs is pt attrs bl =
     Inr (m\<lparr>vertexData := (vertexData m)\<lparr>vertexCount := vc, vertices := vs, indices := is,
              primitiveType := pt, vertexAttributes := attrs, bufferLayout := bl\<rparr>\<rparr>)"
  by (simp add: SetVertexData_def Set_def)

text \<open>
  Where assertions only report, regeneration returns for every text and font: no slice
  expression of \<^verbatim>\<open>update\<close> panics, and \<open>Set\<close> assigns whatever the validator says.
\<close>

lemma update_returns: "\<exists>m'. update Reporting m = Inr m'"
proof -
  obtain s where s: "layout_loop Reporting (font m) (tabWidthPt m) (FontScaling m) (text_runes m)
        (layout_start (length (text_runes m))) = Inr s"
    "vtx s = word_of_nat (4 * glyphs (font m) (text_runes m))"
    "idx s = 6 * glyphs (font m) (text_runes m)"
    "length (vbuf s) = 16 * length (text_runes m)" "length (ibuf s) = 6 * length (text_runes m)"
    using layout_start_runs [of Reporting "text_runes m" "font m" "tabWidthPt m" "FontScaling m" 0]
    by auto
  have "unat (vtx s * 4) \<le> 16 * glyphs (font m) (text_runes m)"
    using vtx_offset_le [of "glyphs (font m) (text_runes m)"] by (simp add: s(2))
  then have "unat (vtx s * 4) \<le> length (vbuf s)" "idx s \<le> length (ibuf s)"
    using glyphs_le [of "font m" "text_runes m"] by (simp_all add: s)
  then show ?thesis
    by (simp add: update_def Let_def s(1) SetVertexData_Reporting)
qed

lemma layout_start_Suc:
  "layout_start (Suc n) =
     (layout_start n)\<lparr>vbuf := vbuf (layout_start n) @ replicate 16 0,
                       ibuf := ibuf (layout_start n) @ replicate 6 0\<rparr>"
  by (simp add: layout_start_def replicate_add [symmetric])

lemma layout_step_missing:
  "r \<noteq> 13 \<Longrightarrow> r \<noteq> 10 \<Longrightarrow> r \<noteq> 9 \<Longrightarrow> Chars f r = None \<Longrightarrow>
   layout_step Reporting f twp sc r s = Inr s"
  by (simp add: layout_step_def)

lemma layout_step_missing_aborts:
  "r \<noteq> 13 \<Longrightarrow> r \<noteq> 10 \<Longrightarrow> r \<noteq> 9 \<Longrightarrow> Chars f r = None \<Longrightarrow>
   layout_step Aborting f twp sc r s = Inl GlyphLookupMiss"
  by (simp add: layout_step_def)

lemma layout_loop_missing:
  assumes "r \<noteq> 13" "r \<noteq> 10" "r \<noteq> 9" "Chars f r = None"
  shows "layout_loop Reporting f twp sc (xs @ r # ys) s = layout_loop Reporting f twp sc (xs @ ys) s"
  using assms by (simp add: layout_loop_append layout_step_missing split: sum.splits)

text \<open>
  Where the failed assertion on the glyph lookup returns, the loop takes its \<^verbatim>\<open>continue\<close>.
  Let \<open>r\<close> be a code point that is no carriage return, newline or tab and has no glyph in
  the font. Regenerating a text that contains \<open>r\<close> returns, as does regenerating the text
  without it, and both leave the same mesh (vertex count, vertices, indices) and the same
  bounds; the loop iteration for \<open>r\<close> changes nothing, the cursor included. The indices
  are six per code point that has a quad; while the text has fewer than 4096 such code
  points, the vertex count is four and the vertex floats are sixteen per such code point;
  and when every other printable code point has a glyph, the quads are one fewer than the
  printable code points.
\<close>

lemma missing_glyph_same_output:
  assumes printable: "r \<noteq> 13" "r \<noteq> 10" "r \<noteq> 9"
    and missing: "Chars (font m) r = None"
  shows "\<exists>m1 m2.
     Text_Set Reporting m (xs @ r # ys) = Inr m1 \<and> Text_Set Reporting m (xs @ ys) = Inr m2 \<and>
     mesh m1 = mesh m2 \<and> bounds m1 = bounds m2 \<and>
     (\<forall>s. layout_step Reporting (font m) (tabWidthPt m) (FontScaling m) r s = Inr s) \<and>
     slice_len (indices (vertexData (mesh m1))) = 6 * glyphs (font m) (xs @ r # ys) \<and>
     (glyphs (font m) (xs @ r # ys) < 4096 \<longrightarrow>
        vertexCount (vertexData (mesh m1)) = 4 * int (glyphs (font m) (xs @ r # ys)) \<and>
        length (vertices (vertexData (mesh m1))) = 16 * glyphs (font m) (xs @ r # ys)) \<and>
     ((\<forall>q \<in> set (xs @ ys). q \<noteq> 13 \<and> q \<noteq> 10 \<and> q \<noteq> 9 \<longrightarrow> Chars (font m) q \<noteq> None) \<longrightarrow>
        glyphs (font m) (xs @ r # ys) + 1 =
          length (filter (\<lambda>q. q \<noteq> 13 \<and> q \<noteq> 10 \<and> q \<noteq> 9) (xs @ r # ys)))"
proof -
  let ?f = "font m" and ?twp = "tabWidthPt m" and ?sc = "FontScaling m"
  let ?n = "length (xs @ ys)"
  let ?g = "glyphs ?f (xs @ ys)"
  obtain s where s: "layout_loop Reporting ?f ?twp ?sc (xs @ ys) (layout_start ?n) = Inr s"
    "vtx s = word_of_nat (4 * ?g)" "idx s = 6 * ?g"
    "length (vbuf s) = 16 * ?n" "length (ibuf s) = 6 * ?n"
    using layout_start_runs [of Reporting "xs @ ys" ?f ?twp ?sc 0] by auto
  have off: "unat (vtx s * 4) \<le> length (vbuf s)" "idx s \<le> length (ibuf s)"
    using vtx_offset_le [of ?g] glyphs_le [of ?f "xs @ ys"] by (simp_all add: s)
  have "layout_loop Reporting ?f ?twp ?sc (xs @ r # ys) (layout_start (Suc ?n)) =
      layout_loop Reporting ?f ?twp ?sc (xs @ ys) (layout_start (Suc ?n))"
    using printable missing by (rule layout_loop_missing)
  also have "\<dots> = layout_loop Reporting ?f ?twp ?sc (xs @ ys)
      ((layout_start ?n)\<lparr>vbuf := vbuf (layout_start ?n) @ replicate 16 0,
                          ibuf := ibuf (layout_start ?n) @ replicate 6 0\<rparr>)"
    by (simp only: layout_start_Suc)
  also have "\<dots> =
      (case layout_loop Reporting ?f ?twp ?sc (xs @ ys) (layout_start ?n) of
         Inl e \<Rightarrow> Inl e
       | Inr s' \<Rightarrow> Inr (s'\<lparr>vbuf := vbuf s' @ replicate 16 0, ibuf := ibuf s' @ replicate 6 0\<rparr>))"
    by (rule layout_loop_padding [of _ 0]) (simp_all add: layout_start_def)
  also have "\<dots> = Inr (s\<lparr>vbuf := vbuf s @ replicate 16 0, ibuf := ibuf s @ replicate 6 0\<rparr>)"
    by (simp only: s(1) sum.case)
  finally have long: "layout_loop Reporting ?f ?twp ?sc (xs @ r # ys) (layout_start (Suc ?n)) =
      Inr (s\<lparr>vbuf := vbuf s @ replicate 16 0, ibuf := ibuf s @ replicate 6 0\<rparr>)" .
  have sc: "FontScaling (m\<lparr>text_runes := t\<rparr>) = ?sc" for t
    by (simp add: FontScaling_def)
  define b where "b = \<lparr>Min_rect = (0, f32_add (baseline s) (f32_mul (f32_of_int (Descender ?f)) ?sc)),
      Max_rect = (if boundsMaxX s < origin s then origin s else boundsMaxX s,
                  f32_mul (f32_of_int (Ascender ?f)) ?sc)\<rparr>"
  define d where "d = (mesh m)\<lparr>vertexData := (vertexData (mesh m))\<lparr>vertexCount := uint (vtx s),
      vertices := take (unat (vtx s * 4)) (vbuf s), indices := Some (take (idx s) (ibuf s)),
      primitiveType := TRIANGLES, vertexAttributes := [''position'', ''texCoord''],
      bufferLayout := InterleavedBuffer\<rparr>\<rparr>"
  have u1: "Text_Set Reporting m (xs @ r # ys) =
      Inr (m\<lparr>text_runes := xs @ r # ys, bounds := b, mesh := d\<rparr>)"
    using off long
    by (simp add: Text_Set_def update_def Let_def sc b_def d_def SetVertexData_Reporting)
  have u2: "Text_Set Reporting m (xs @ ys) = Inr (m\<lparr>text_runes := xs @ ys, bounds := b, mesh := d\<rparr>)"
    using off s(1)
    by (simp add: Text_Set_def update_def Let_def sc b_def d_def SetVertexData_Reporting)
  have same: "glyphs ?f (xs @ r # ys) = ?g"
    using missing by (simp add: glyphs_def)
  have count: "slice_len (indices (vertexData d)) = 6 * ?g"
    using off by (simp add: d_def slice_len_def s(3))
  have vcount: "vertexCount (vertexData d) = 4 * int ?g \<and>
      length (vertices (vertexData d)) = 16 * ?g" if "?g < 4096"
  proof -
    have "unat (word_of_nat (4 * ?g) :: uint16) = 4 * ?g"
      using that by (simp only: unat_of_nat) simp
    moreover have "(word_of_nat (4 * ?g) * 4 :: uint16) = word_of_nat (16 * ?g)"
      by simp
    then have "unat (word_of_nat (4 * ?g) * 4 :: uint16) = 16 * ?g"
      using that by (simp only: unat_of_nat) simp
    ultimately show ?thesis
      using glyphs_le [of ?f "xs @ ys"] by (simp add: d_def s(2) s(4) uint_nat)
  qed
  have all: "?g + 1 = length (filter (\<lambda>q. q \<noteq> 13 \<and> q \<noteq> 10 \<and> q \<noteq> 9) (xs @ r # ys))"
    if "\<forall>q \<in> set (xs @ ys). q \<noteq> 13 \<and> q \<noteq> 10 \<and> q \<noteq> 9 \<longrightarrow> Chars ?f q \<noteq> None"
  proof -
    have "filter (\<lambda>r. r \<noteq> 13 \<and> r \<noteq> 10 \<and> r \<noteq> 9 \<and> Chars ?f r \<noteq> None) (xs @ ys) =
        filter (\<lambda>q. q \<noteq> 13 \<and> q \<noteq> 10 \<and> q \<noteq> 9) (xs @ ys)"
      using that by (intro filter_cong) auto
    then show ?thesis
      using printable by (simp add: glyphs_def)
  qed
  show ?thesis
    using u1 u2 count vcount all printable missing
    by (simp add: same layout_step_missing)
qed

lemma scale20: "f32_div 1 (f32_of_int 20) = 13421773 / 268435456"
  by code_simp

lemma advance10: "f32_mul (f32_of_int 10) (13421773 / 268435456) = 1 / 2"
  by code_simp

lemma line20: "f32_mul (f32_of_int 20) (13421773 / 268435456) = 1"
  by code_simp

lemma cursor_sums:
  "f32_add 0 (1 / 2) = 1 / 2" "f32_add (1 / 2) (1 / 2) = 1" "f32_sub 0 1 = - 1"
  by code_simp+

text \<open>The validator accepts what \<^verbatim>\<open>update\<close> hands over for one, two and three quads.\<close>

lemma quads_valid:
  "length vs = 16 \<Longrightarrow>
     AssertValidGeometry None 4 vs (Some [0, 1, 2, 2, 3, 0]) TRIANGLES
       [''position'', ''texCoord''] = None"
  "length vs = 32 \<Longrightarrow>
     AssertValidGeometry None 8 vs (Some [0, 1, 2, 2, 3, 0, 4, 5, 6, 6, 7, 4]) TRIANGLES
       [''position'', ''texCoord''] = None"
  "length vs = 48 \<Longrightarrow>
     AssertValidGeometry None 12 vs
       (Some [0, 1, 2, 2, 3, 0, 4, 5, 6, 6, 7, 4, 8, 9, 10, 10, 11, 8]) TRIANGLES
       [''position'', ''texCoord''] = None"
proof -
  have r: "f32_div (f32_of_int 16) (f32_of_int 4) = f32_of_int 4"
    "f32_div (f32_of_int 32) (f32_of_int 8) = f32_of_int 4"
    "f32_div (f32_of_int 48) (f32_of_int 12) = f32_of_int 4"
    by code_simp+
  have d: "go_div 16 4 = 4" "go_div 32 8 = 4" "go_div 48 12 = 4"
    by code_simp+
  have sc: "index_scan 4 [0, 1, 2, 2, 3, 0] (4, - 1, True) = (0, 3, True)"
    "index_scan 8 [0, 1, 2, 2, 3, 0, 4, 5, 6, 6, 7, 4] (8, - 1, True) = (0, 7, True)"
    "index_scan 12 [0, 1, 2, 2, 3, 0, 4, 5, 6, 6, 7, 4, 8, 9, 10, 10, 11, 8] (12, - 1, True) =
       (0, 11, True)"
    by code_simp+
  have p: "go_mod 6 3 = 0" "go_mod 12 3 = 0" "go_mod 18 3 = 0"
    by code_simp+
  show "length vs = 16 \<Longrightarrow>
     AssertValidGeometry None 4 vs (Some [0, 1, 2, 2, 3, 0]) TRIANGLES
       [''position'', ''texCoord''] = None"
    by (simp add: AssertValidGeometry_def Let_def r d sc p slice_len_def slice_elems_def
        effectiveIndexCount_def)
  show "length vs = 32 \<Longrightarrow>
     AssertValidGeometry None 8 vs (Some [0, 1, 2, 2, 3, 0, 4, 5, 6, 6, 7, 4]) TRIANGLES
       [''position'', ''texCoord''] = None"
    by (simp add: AssertValidGeometry_def Let_def r d sc p slice_len_def slice_elems_def
        effectiveIndexCount_def)
  show "length vs = 48 \<Longrightarrow>
     AssertValidGeometry None 12 vs
       (Some [0, 1, 2, 2, 3, 0, 4, 5, 6, 6, 7, 4, 8, 9, 10, 10, 11, 8]) TRIANGLES
       [''position'', ''texCoord''] = None"
    by (simp add: AssertValidGeometry_def Let_def r d sc p slice_len_def slice_elems_def
        effectiveIndexCount_def)
qed

text \<open>
  C7, for either behaviour of the assertions. The text \<open>AB\<close>, newline, \<open>C\<close> in a font with
  line height 20 whose glyphs \<open>A\<close>, \<open>B\<close> and \<open>C\<close> have advance width 10: regeneration returns
  with 12 vertices in 48 floats and 18 indices, the three quads laid out from cursor 0 and
  \<open>1/2\<close> on baseline 0 and from cursor 0 on baseline \<open>-1\<close>; after the newline the cursor is 0
  and the baseline \<open>-1\<close>, and the bounds reach to 1 on the x axis.
\<close>

theorem regenerate_two_lines:
  assumes height: "Height (font m) = 20"
    and glyphs: "Chars (font m) 65 = Some ca" "Chars (font m) 66 = Some cb"
      "Chars (font m) 67 = Some cc"
    and widths: "Width ca = 10" "Width cb = 10" "Width cc = 10"
  shows "\<exists>m' s.
     Text_Set a m [65, 66, 10, 67] = Inr m' \<and>
     vertexCount (vertexData (mesh m')) = 12 \<and>
     length (vertices (vertexData (mesh m'))) = 48 \<and>
     vertices (vertexData (mesh m')) =
       quad (font m) (FontScaling m) 0 0 65 ca @
       quad (font m) (FontScaling m) (1 / 2) 0 66 cb @
       quad (font m) (FontScaling m) 0 (- 1) 67 cc \<and>
     indices (vertexData (mesh m')) =
       Some [0, 1, 2, 2, 3, 0, 4, 5, 6, 6, 7, 4, 8, 9, 10, 10, 11, 8] \<and>
     fst (Max_rect (bounds m')) = 1 \<and>
     layout_loop a (font m) (tabWidthPt m) (FontScaling m) [65, 66, 10] (layout_start 4) = Inr s \<and>
     origin s = 0 \<and> baseline s = - 1"
proof -
  have sc: "FontScaling (m\<lparr>text_runes := t\<rparr>) = 13421773 / 268435456" for t
    by (simp add: FontScaling_def height scale20)
  have sc': "FontScaling m = 13421773 / 268435456"
    by (simp add: FontScaling_def height scale20)
  show ?thesis
    by (simp add: Text_Set_def update_def Let_def sc sc' layout_start_def layout_step_def
        assms advance10 line20 cursor_sums copy_into_def SetVertexData_def Set_def quads_valid)
qed

theorem regenerate_two_lines_witness:
  "(\<exists>m'. Text_Set Aborting text20 [65, 66, 10, 67] = Inr m' \<and>
     vertexCount (vertexData (mesh m')) = 12 \<and>
     length (vertices (vertexData (mesh m'))) = 48 \<and>
     slice_len (indices (vertexData (mesh m'))) = 18 \<and>
     fst (Max_rect (bounds m')) = 1) \<and>
   (\<exists>m'. Text_Set Reporting text20 [65, 66, 10, 67] = Inr m' \<and>
     vertexCount (vertexData (mesh m')) = 12 \<and>
     length (vertices (vertexData (mesh m'))) = 48 \<and>
     slice_len (indices (vertexData (mesh m'))) = 18 \<and>
     fst (Max_rect (bounds m')) = 1)"
proof -
  have f: "Height (font text20) = 20" "Chars (font text20) 65 = Some glyph10"
    "Chars (font text20) 66 = Some glyph10" "Chars (font text20) 67 = Some glyph10"
    "Width glyph10 = 10"
    by (simp_all add: text20_def font20_def glyph10_def)
  have "\<exists>m'. Text_Set a text20 [65, 66, 10, 67] = Inr m' \<and>
     vertexCount (vertexData (mesh m')) = 12 \<and>
     length (vertices (vertexData (mesh m'))) = 48 \<and>
     slice_len (indices (vertexData (mesh m'))) = 18 \<and>
     fst (Max_rect (bounds m')) = 1" for a
  proof -
    from regenerate_two_lines [OF f(1) f(2) f(3) f(4) f(5) f(5) f(5), of a]
    obtain m' where "Text_Set a text20 [65, 66, 10, 67] = Inr m'"
      "vertexCount (vertexData (mesh m')) = 12"
      "length (vertices (vertexData (mesh m'))) = 48"
      "indices (vertexData (mesh m')) =
         Some [0, 1, 2, 2, 3, 0, 4, 5, 6, 6, 7, 4, 8, 9, 10, 10, 11, 8]"
      "fst (Max_rect (bounds m')) = 1"
      by blast
    then show ?thesis
      by (simp add: slice_len_def)
  qed
  then show ?thesis
    by blast
qed

lemma tab_floats:
  "f32_mul (f32_of_int 4) 10 = 40" "f32_mul (f32_of_int 4) 5 = 20"
  "f32_mul 40 (13421773 / 268435456) = 2" "f32_mul 20 (13421773 / 268435456) = 1"
  "f32_add 0 2 = 2" "f32_add 0 1 = 1"
  "f32_mul (f32_of_int 10) (13421773 / 268435456) = 1 / 2"
  "f32_add 2 (1 / 2) = 5 / 2" "f32_add 1 (1 / 2) = 3 / 2"
  "f32_add 2 (f32_mul (f32_of_int 1) (13421773 / 268435456)) = 8598323 / 4194304"
  "f32_add 1 (f32_mul (f32_of_int 1) (13421773 / 268435456)) = 4404019 / 4194304"
  by code_simp+

text \<open>
  C6 at a concrete sequence of calls, for either behaviour of the assertions. A text of a
  tab and an \<open>A\<close>, created with a font of average glyph width 10 and then given a font of
  average width 5 by \<open>SetFont\<close>, against the same text created with the second font: font,
  text and tab width agree, yet the cached \<open>tabWidthPt\<close> is 40 in the first, where \<open>SetFont\<close>
  did not refresh it, and 20 in the second, so the tab advances the cursor by 2 and by 1 and
  the quads and the bounds differ.
\<close>

theorem stale_tab_width_after_SetFont:
  "\<exists>t t1 t2.
     NewText a (font20 10) [9, 65] = Inr t \<and> SetFont a t (font20 5) = Inr t1 \<and>
     NewText a (font20 5) [9, 65] = Inr t2 \<and>
     font t1 = font20 5 \<and> font t2 = font20 5 \<and>
     text_runes t1 = [9, 65] \<and> text_runes t2 = [9, 65] \<and>
     tabWidth t1 = 4 \<and> tabWidth t2 = 4 \<and>
     tabWidthPt t1 = 40 \<and> tabWidthPt t2 = 20 \<and>
     hd (vertices (vertexData (mesh t1))) = 8598323 / 4194304 \<and>
     hd (vertices (vertexData (mesh t2))) = 4404019 / 4194304 \<and>
     fst (Max_rect (bounds t1)) = 5 / 2 \<and> fst (Max_rect (bounds t2)) = 3 / 2"
  by (simp add: NewText_def SetFont_def update_def Let_def FontScaling_def font20_def glyph10_def
      scale20 tab_floats layout_start_def layout_step_def copy_into_def SetVertexData_def
      Set_def quads_valid SetColor_def quad_def)

text \<open>
  A short text with a code point that has no glyph, \<open>A\<close>, the euro sign, \<open>B\<close>. Where the
  failed assertion returns, regeneration hands over the two quads of \<open>A\<close> and \<open>B\<close>, the
  second at cursor \<open>1/2\<close> as if the euro sign were absent, and the validator accepts them.
  Where the failed assertion ends the call, regeneration fails.
\<close>

lemma missing_glyph_two_quads:
  "(\<exists>m'. Text_Set Reporting text20 [65, 8364, 66] = Inr m' \<and>
      vertexCount (vertexData (mesh m')) = 8 \<and>
      vertices (vertexData (mesh m')) =
        quad (font20 10) (FontScaling text20) 0 0 65 glyph10 @
        quad (font20 10) (FontScaling text20) (1 / 2) 0 66 glyph10 \<and>
      indices (vertexData (mesh m')) = Some [0, 1, 2, 2, 3, 0, 4, 5, 6, 6, 7, 4] \<and>
      AssertValidGeometry None 8 (vertices (vertexData (mesh m')))
        (indices (vertexData (mesh m'))) TRIANGLES [''position'', ''texCoord''] = None) \<and>
   Text_Set Aborting text20 [65, 8364, 66] = Inl GlyphLookupMiss"
proof -
  have sc: "FontScaling (text20\<lparr>text_runes := t\<rparr>) = 13421773 / 268435456" for t
    by (simp add: FontScaling_def text20_def font20_def scale20)
  have sc': "FontScaling text20 = 13421773 / 268435456"
    by (simp add: FontScaling_def text20_def font20_def scale20)
  have f: "font (text20\<lparr>text_runes := t\<rparr>) = font20 10" for t
    by (simp add: text20_def)
  have c: "Chars (font20 10) 65 = Some glyph10" "Chars (font20 10) 66 = Some glyph10"
    "Chars (font20 10) 8364 = None" "Width glyph10 = 10"
    by (simp_all add: font20_def glyph10_def)
  show ?thesis
    by (simp add: Text_Set_def update_def Let_def sc sc' f c layout_start_def layout_step_def
        advance10 cursor_sums copy_into_def SetVertexData_def Set_def quads_valid)
qed

text \<open>
  Where assertions abort, regeneration fails at the first printable code point without a
  glyph, whatever the text before and after it.
\<close>

lemma update_missing_glyph_aborts:
  assumes runes: "text_runes m = xs @ r # ys"
    and before: "\<forall>q \<in> set xs. q = 13 \<or> q = 10 \<or> q = 9 \<or> Chars (font m) q \<noteq> None"
    and printable: "r \<noteq> 13" "r \<noteq> 10" "r \<noteq> 9"
    and missing: "Chars (font m) r = None"
  shows "update Aborting m = Inl GlyphLookupMiss"
proof -
  let ?f = "font m" and ?twp = "tabWidthPt m" and ?sc = "FontScaling m"
  have len: "length (text_runes m) = Suc (length xs + length ys)"
    by (simp add: runes)
  obtain s where s: "layout_loop Aborting ?f ?twp ?sc xs
      (layout_start (Suc (length xs + length ys))) = Inr s"
    using layout_start_runs [of Aborting xs ?f ?twp ?sc "Suc (length ys)"] before by auto
  have "layout_step Aborting ?f ?twp ?sc r s = Inl GlyphLookupMiss"
    using printable missing by (rule layout_step_missing_aborts)
  then have "layout_loop Aborting ?f ?twp ?sc (xs @ r # ys)
      (layout_start (Suc (length xs + length ys))) = Inl GlyphLookupMiss"
    by (simp add: layout_loop_append s)
  then show ?thesis
    by (simp add: update_def Let_def len runes)
qed

text \<open>
  A text with exactly 4096 quads. The loop ends with \<open>vtx = 16384\<close>, and the slice expression
  \<^verbatim>\<open>vertices[:vtx*4]\<close> multiplies in \<^verbatim>\<open>uint16\<close>: \<open>16384 * 4\<close> wraps to 0, so the vertex data
  handed to the mesh is empty while the vertex count is 16384 and the indices are 24576.
\<close>

lemma wrapped_offset:
  "(word_of_nat (4 * 4096) * 4 :: uint16) = 0" "uint (word_of_nat (4 * 4096) :: uint16) = 16384"
  by simp_all

lemma AssertValidGeometry_no_floats:
  "AssertValidGeometry None 16384 [] is TRIANGLES [''position'', ''texCoord''] =
     Some AttributeSizeMismatch"
proof -
  have z: "f32_of_int 0 = 0" "f32_div 0 y = 0" for y
    by (simp_all add: f32_of_int_def f32_div_def f32_def)
  have d: "go_div 0 16384 = 0"
    by (simp add: go_div_def)
  show ?thesis
    by (simp add: AssertValidGeometry_def Let_def z d)
qed

lemma update_wraps:
  assumes quads: "glyphs (font m) (text_runes m) = 4096"
    and ok: "a = Reporting \<or>
      (\<forall>q \<in> set (text_runes m). q = 13 \<or> q = 10 \<or> q = 9 \<or> Chars (font m) q \<noteq> None)"
  shows "case a of
      Aborting \<Rightarrow> update a m = Inl AttributeSizeMismatch
    | Reporting \<Rightarrow>
        (\<exists>m'. update a m = Inr m' \<and>
           vertexCount (vertexData (mesh m')) = 16384 \<and>
           vertices (vertexData (mesh m')) = [] \<and>
           slice_len (indices (vertexData (mesh m'))) = 24576 \<and>
           primitiveType (vertexData (mesh m')) = TRIANGLES \<and>
           vertexAttributes (vertexData (mesh m')) = [''position'', ''texCoord''])"
proof -
  let ?f = "font m" and ?twp = "tabWidthPt m" and ?sc = "FontScaling m"
  obtain s where s: "layout_loop a ?f ?twp ?sc (text_runes m)
        (layout_start (length (text_runes m))) = Inr s"
    "vtx s = word_of_nat (4 * 4096)" "idx s = 6 * 4096"
    "length (vbuf s) = 16 * length (text_runes m)" "length (ibuf s) = 6 * length (text_runes m)"
    using layout_start_runs [of a "text_runes m" ?f ?twp ?sc 0] ok by (auto simp: quads)
  have off: "vtx s * 4 = 0" "uint (vtx s) = 16384"
    by (simp_all only: s(2) wrapped_offset)
  have fits: "idx s \<le> length (ibuf s)"
    using glyphs_le [of ?f "text_runes m"] by (simp add: s quads)
  show ?thesis
  proof (cases a)
    case Aborting
    then show ?thesis
      using s(1) fits
      by (simp add: update_def Let_def off SetVertexData_def Set_def
          AssertValidGeometry_no_floats)
  next
    case Reporting
    then show ?thesis
      using s(1) fits
      by (simp add: update_def Let_def off SetVertexData_Reporting slice_len_def s(3))
  qed
qed

text \<open>
  C8 at a text of 4096 times \<open>A\<close> and the euro sign, which the font has no glyph for.
  Where the failed assertion on the lookup returns, regeneration stores a vertex count of
  16384 and 24576 indices with no vertex data at all, which the validator rejects: not one
  of the 4096 quads is handed over. Where a failed assertion ends the call, regeneration
  fails at the euro sign, and without it fails in the validator.
\<close>

theorem long_text_vertex_offset_wraps:
  "(\<exists>m'. Text_Set Reporting text20 (replicate 4096 65 @ [8364]) = Inr m' \<and>
      vertexCount (vertexData (mesh m')) = 16384 \<and>
      vertices (vertexData (mesh m')) = [] \<and>
      slice_len (indices (vertexData (mesh m'))) = 24576 \<and>
      AssertValidGeometry None (vertexCount (vertexData (mesh m')))
        (vertices (vertexData (mesh m'))) (indices (vertexData (mesh m')))
        (primitiveType (vertexData (mesh m'))) (vertexAttributes (vertexData (mesh m'))) =
        Some AttributeSizeMismatch) \<and>
   Text_Set Aborting text20 (replicate 4096 65 @ [8364]) = Inl GlyphLookupMiss \<and>
   Text_Set Aborting text20 (replicate 4096 65) = Inl AttributeSizeMismatch"
proof -
  define n :: nat where "n = 4096"
  define long where "long = replicate n (65 :: rune)"
  have c: "Chars (font20 10) 65 = Some glyph10" "Chars (font20 10) 8364 = None"
    by (simp_all add: font20_def)
  have f: "font (text20\<lparr>text_runes := t\<rparr>) = font20 10" for t
    by (simp add: text20_def)
  have g: "glyphs (font20 10) long = 4096" "glyphs (font20 10) (long @ [8364]) = 4096"
    by (simp_all add: glyphs_def long_def c n_def)
  have all: "\<forall>q \<in> set long. q = 13 \<or> q = 10 \<or> q = 9 \<or> Chars (font20 10) q \<noteq> None"
    by (simp add: long_def c)
  have "\<exists>m'. update Reporting (text20\<lparr>text_runes := long @ [8364]\<rparr>) = Inr m' \<and>
      vertexCount (vertexData (mesh m')) = 16384 \<and>
      vertices (vertexData (mesh m')) = [] \<and>
      slice_len (indices (vertexData (mesh m'))) = 24576 \<and>
      primitiveType (vertexData (mesh m')) = TRIANGLES \<and>
      vertexAttributes (vertexData (mesh m')) = [''position'', ''texCoord'']"
    using update_wraps [of "text20\<lparr>text_runes := long @ [8364]\<rparr>" Reporting]
    by (simp add: f g)
  then have reporting: "\<exists>m'. Text_Set Reporting text20 (long @ [8364]) = Inr m' \<and>
      vertexCount (vertexData (mesh m')) = 16384 \<and>
      vertices (vertexData (mesh m')) = [] \<and>
      slice_len (indices (vertexData (mesh m'))) = 24576 \<and>
      AssertValidGeometry None (vertexCount (vertexData (mesh m')))
        (vertices (vertexData (mesh m'))) (indices (vertexData (mesh m')))
        (primitiveType (vertexData (mesh m'))) (vertexAttributes (vertexData (mesh m'))) =
        Some AttributeSizeMismatch"
    by (auto simp: Text_Set_def AssertValidGeometry_no_floats)
  have "\<forall>q \<in> set long. q = 13 \<or> q = 10 \<or> q = 9 \<or>
      Chars (font (text20\<lparr>text_runes := long @ [8364]\<rparr>)) q \<noteq> None"
    using all by (simp only: f)
  then have "update Aborting (text20\<lparr>text_runes := long @ [8364]\<rparr>) = Inl GlyphLookupMiss"
    by (rule update_missing_glyph_aborts [of _ long 8364 "[]", rotated]) (simp_all add: f c)
  then have missing: "Text_Set Aborting text20 (long @ [8364]) = Inl GlyphLookupMiss"
    by (simp add: Text_Set_def)
  have "update Aborting (text20\<lparr>text_runes := long\<rparr>) = Inl AttributeSizeMismatch"
    using update_wraps [of "text20\<lparr>text_runes := long\<rparr>" Aborting] all
    by (simp add: f g)
  then have wraps: "Text_Set Aborting text20 long = Inl AttributeSizeMismatch"
    by (simp add: Text_Set_def)
  from reporting missing wraps show ?thesis
    unfolding long_def n_def by (intro conjI)
qed

text \<open>
  C10. \<open>SetColor\<close> leaves the text, the font, the tab width and its cached product, the
  bounds and the vertex data of the mesh as they are, regenerating nothing: it stores the
  colour and hands it to the material of the mesh as the uniform \<open>color\<close>.
\<close>

theorem SetColor_frame:
  "text_runes (SetColor m c) = text_runes m \<and> font (SetColor m c) = font m \<and>
   tabWidth (SetColor m c) = tabWidth m \<and> tabWidthPt (SetColor m c) = tabWidthPt m \<and>
   bounds (SetColor m c) = bounds m \<and>
   vertexData (mesh (SetColor m c)) = vertexData (mesh m) \<and>
   color (SetColor m c) = c \<and>
   material (mesh (SetColor m c)) = Uniform4fColor (material (mesh m)) ''color'' c"
  by (simp add: SetColor_def)

end
